theory Spec2Isabelle
  imports Main "HOL-Library.Sublist"
begin

section \<open>Data model\<close>

text \<open>
  A chat message as the HTTP layer hands it over (\<^verbatim>\<open>ChatMessage\<close> in models.py,
  turned into a dict with the keys \<^verbatim>\<open>role\<close> and \<^verbatim>\<open>content\<close>). Both fields are
  arbitrary strings: nothing restricts the role to user or assistant.
\<close>

record message =
  role :: string
  content :: string

text \<open>Exceptions of the source that the model keeps as values.\<close>

datatype error =
  IntegrityError | OperationalError | OverflowError | ValueError | TimeoutError | IndexError
  | AttributeError | PlaywrightError

subsection \<open>Clock readings and their text forms\<close>

text \<open>
  A Python \<^verbatim>\<open>datetime\<close> (naive, as \<^verbatim>\<open>datetime.now()\<close> returns it). The same record
  is used for the reading SQLite takes for \<^verbatim>\<open>CURRENT_TIMESTAMP\<close>.
\<close>

record datetime =
  year :: nat
  month :: nat
  day :: nat
  hour :: nat
  minute :: nat
  second :: nat
  microsecond :: nat

definition digit :: "nat \<Rightarrow> char" where
  "digit d = ''0123456789'' ! (d mod 10)"

definition d2 :: "nat \<Rightarrow> string" where
  "d2 n = [digit (n div 10), digit n]"

definition d4 :: "nat \<Rightarrow> string" where
  "d4 n = d2 (n div 100) @ d2 n"

definition d6 :: "nat \<Rightarrow> string" where
  "d6 n = d2 (n div 10000) @ d2 (n div 100) @ d2 n"

text \<open>SQLite's \<^verbatim>\<open>CURRENT_TIMESTAMP\<close>: the text \<^verbatim>\<open>YYYY-MM-DD HH:MM:SS\<close>.\<close>

definition CURRENT_TIMESTAMP :: "datetime \<Rightarrow> string" where
  "CURRENT_TIMESTAMP t =
     d4 (year t) @ ''-'' @ d2 (month t) @ ''-'' @ d2 (day t) @ '' '' @
     d2 (hour t) @ '':'' @ d2 (minute t) @ '':'' @ d2 (second t)"

text \<open>
  Python's \<^verbatim>\<open>datetime.isoformat()\<close>: \<^verbatim>\<open>YYYY-MM-DDTHH:MM:SS\<close>, followed by
  \<^verbatim>\<open>.ffffff\<close> when the microsecond field is not zero.
\<close>

definition isoformat :: "datetime \<Rightarrow> string" where
  "isoformat t =
     d4 (year t) @ ''-'' @ d2 (month t) @ ''-'' @ d2 (day t) @ ''T'' @
     d2 (hour t) @ '':'' @ d2 (minute t) @ '':'' @ d2 (second t) @
     (if microsecond t = 0 then [] else ''.'' @ d6 (microsecond t))"

text \<open>
  The order of two clock readings: field by field, the year first.
\<close>

definition dt_key :: "datetime \<Rightarrow> nat list" where
  "dt_key t = [year t, month t, day t, hour t, minute t, second t, microsecond t]"

fun key_less :: "nat list \<Rightarrow> nat list \<Rightarrow> bool" where
  "key_less [] [] = False"
| "key_less [] (y # ys) = True"
| "key_less (x # xs) [] = False"
| "key_less (x # xs) (y # ys) = (x < y \<or> (x = y \<and> key_less xs ys))"

definition dt_less :: "datetime \<Rightarrow> datetime \<Rightarrow> bool" where
  "dt_less a b = key_less (dt_key a) (dt_key b)"

text \<open>
  The readings a clock can show, and their order up to the second, which is all that
  \<^verbatim>\<open>CURRENT_TIMESTAMP\<close> keeps.
\<close>

definition valid_datetime :: "datetime \<Rightarrow> bool" where
  "valid_datetime t =
     (1 \<le> year t \<and> year t \<le> 9999 \<and> 1 \<le> month t \<and> month t \<le> 12 \<and> 1 \<le> day t \<and> day t \<le> 31 \<and>
      hour t < 24 \<and> minute t < 60 \<and> second t < 60 \<and> microsecond t < 1000000)"

definition second_key :: "datetime \<Rightarrow> nat list" where
  "second_key t = [year t, month t, day t, hour t, minute t, second t]"

definition earlier_second :: "datetime \<Rightarrow> datetime \<Rightarrow> bool" where
  "earlier_second a b = key_less (second_key a) (second_key b)"

text \<open>
  SQLite compares two TEXT values byte by byte (the BINARY collation). The column
  \<^verbatim>\<open>last_used TIMESTAMP\<close> has NUMERIC affinity, but a timestamp text is no number, so
  it is stored and compared as TEXT.
\<close>

fun text_lt :: "string \<Rightarrow> string \<Rightarrow> bool" where
  "text_lt [] [] = False"
| "text_lt [] (y # ys) = True"
| "text_lt (x # xs) [] = False"
| "text_lt (x # xs) (y # ys) =
     ((of_char x :: nat) < of_char y \<or> (x = y \<and> text_lt xs ys))"

subsection \<open>\<^verbatim>\<open>datetime - timedelta(seconds=n)\<close>\<close>

text \<open>
  Python's date arithmetic goes through the proleptic Gregorian ordinal of the date
  (day 1 is 0001-01-01), as \<^verbatim>\<open>_ymd2ord\<close> and \<^verbatim>\<open>_ord2ymd\<close> of the standard library do.
\<close>

definition is_leap :: "nat \<Rightarrow> bool" where
  "is_leap y = (y mod 4 = 0 \<and> (y mod 100 \<noteq> 0 \<or> y mod 400 = 0))"

definition DAYS_IN_MONTH :: "nat list" where
  "DAYS_IN_MONTH = [0, 31, 28, 31, 30, 31, 30, 31, 31, 30, 31, 30, 31]"

definition DAYS_BEFORE_MONTH :: "nat list" where
  "DAYS_BEFORE_MONTH = [0, 0, 31, 59, 90, 120, 151, 181, 212, 243, 273, 304, 334]"

definition days_before_year :: "nat \<Rightarrow> nat" where
  "days_before_year y = (let y1 = y - 1 in y1 * 365 + y1 div 4 - y1 div 100 + y1 div 400)"

definition days_before_month :: "nat \<Rightarrow> nat \<Rightarrow> nat" where
  "days_before_month y m = DAYS_BEFORE_MONTH ! m + (if m > 2 \<and> is_leap y then 1 else 0)"

definition ymd2ord :: "nat \<Rightarrow> nat \<Rightarrow> nat \<Rightarrow> nat" where
  "ymd2ord y m d = days_before_year y + days_before_month y m + d"

definition ord2ymd :: "nat \<Rightarrow> nat \<times> nat \<times> nat" where
  "ord2ymd ordinal =
     (let n = ordinal - 1;
          n400 = n div 146097; n = n mod 146097;
          n100 = n div 36524; n = n mod 36524;
          n4 = n div 1461; n = n mod 1461;
          n1 = n div 365; n = n mod 365;
          y = n400 * 400 + 1 + n100 * 100 + n4 * 4 + n1
      in if n1 = 4 \<or> n100 = 4 then (y - 1, 12, 31)
         else
           (let leapyear = (n1 = 3 \<and> (n4 \<noteq> 24 \<or> n100 = 3));
                m = (n + 50) div 32;
                preceding = DAYS_BEFORE_MONTH ! m + (if m > 2 \<and> leapyear then 1 else 0)
            in if preceding > n
               then (y, m - 1,
                     n + (DAYS_IN_MONTH ! (m - 1) + (if m - 1 = 2 \<and> leapyear then 1 else 0))
                       - preceding + 1)
               else (y, m, n - preceding + 1)))"

text \<open>
  \<^verbatim>\<open>t - timedelta(seconds=n)\<close>. The result must fall on an ordinal from 1 to 3652059
  (year 9999); Python raises OverflowError otherwise.
\<close>

definition datetime_sub_seconds :: "datetime \<Rightarrow> int \<Rightarrow> error + datetime" where
  "datetime_sub_seconds t n =
     (let secs = int (ymd2ord (year t) (month t) (day t)) * 86400
                   + int (hour t) * 3600 + int (minute t) * 60 + int (second t) - n;
          days = secs div 86400;
          rest = nat (secs mod 86400)
      in if 0 < days \<and> days \<le> 3652059
         then (case ord2ymd (nat days) of (y, m, d) \<Rightarrow>
                 Inr \<lparr>year = y, month = m, day = d, hour = rest div 3600,
                      minute = rest mod 3600 div 60, second = rest mod 60,
                      microsecond = microsecond t\<rparr>)
         else Inl OverflowError)"

section \<open>The conversation cache (cache.py)\<close>

text \<open>
  The two tables of \<^verbatim>\<open>init_db\<close>. A table is the list of its rows in insertion
  (rowid) order. \<^verbatim>\<open>sqlite_sequence\<close> is the largest id AUTOINCREMENT has handed out.
\<close>

record conversation_row =
  conversation_hash :: string
  web_chat_url :: string
  model :: string
  last_used :: string
  created_at :: string

record message_row =
  msg_id :: nat
  msg_conversation_hash :: string
  msg_role :: string
  msg_content :: string
  msg_timestamp :: string

record cache =
  conversations :: "conversation_row list"
  messages :: "message_row list"
  sqlite_sequence :: nat

subsection \<open>The SQL statements\<close>

text \<open>
  \<^verbatim>\<open>INSERT INTO conversations\<close>: \<^verbatim>\<open>conversation_hash\<close> is the primary key, so a second
  row with a hash already present raises IntegrityError.
\<close>

definition insert_conversation ::
  "string \<Rightarrow> string \<Rightarrow> string \<Rightarrow> string \<Rightarrow> cache \<Rightarrow> error + cache" where
  "insert_conversation h url mdl ts db =
     (if h \<in> set (map conversation_hash (conversations db)) then Inl IntegrityError
      else Inr (db\<lparr>conversations := conversations db @
                  [\<lparr>conversation_hash = h, web_chat_url = url, model = mdl,
                    last_used = ts, created_at = ts\<rparr>]\<rparr>))"

definition insert_message :: "string \<Rightarrow> string \<Rightarrow> string \<Rightarrow> string \<Rightarrow> cache \<Rightarrow> cache" where
  "insert_message h r c ts db =
     db\<lparr>messages := messages db @
          [\<lparr>msg_id = sqlite_sequence db + 1, msg_conversation_hash = h, msg_role = r,
            msg_content = c, msg_timestamp = ts\<rparr>],
        sqlite_sequence := sqlite_sequence db + 1\<rparr>"

text \<open>\<^verbatim>\<open>SELECT web_chat_url FROM conversations WHERE conversation_hash = ?\<close>\<close>

definition select_url_by_hash :: "string \<Rightarrow> cache \<Rightarrow> string list" where
  "select_url_by_hash h db =
     map web_chat_url (filter (\<lambda>r. conversation_hash r = h) (conversations db))"

text \<open>\<^verbatim>\<open>SELECT conversation_hash FROM conversations WHERE web_chat_url = ?\<close>\<close>

definition select_hash_by_url :: "string \<Rightarrow> cache \<Rightarrow> string list" where
  "select_hash_by_url url db =
     map conversation_hash (filter (\<lambda>r. web_chat_url r = url) (conversations db))"

definition fetchone :: "'a list \<Rightarrow> 'a option" where
  "fetchone rows = (case rows of [] \<Rightarrow> None | r # _ \<Rightarrow> Some r)"

text \<open>\<^verbatim>\<open>UPDATE conversations SET last_used = CURRENT_TIMESTAMP WHERE web_chat_url = ?\<close>\<close>

definition update_last_used :: "string \<Rightarrow> string \<Rightarrow> cache \<Rightarrow> cache" where
  "update_last_used url ts db =
     db\<lparr>conversations :=
          map (\<lambda>r. if web_chat_url r = url then r\<lparr>last_used := ts\<rparr> else r) (conversations db)\<rparr>"

text \<open>\<^verbatim>\<open>SELECT conversation_hash FROM conversations WHERE last_used < ?\<close>\<close>

definition select_old :: "string \<Rightarrow> cache \<Rightarrow> string list" where
  "select_old cutoff db =
     map conversation_hash (filter (\<lambda>r. text_lt (last_used r) cutoff) (conversations db))"

definition delete_messages :: "string \<Rightarrow> cache \<Rightarrow> cache" where
  "delete_messages h db =
     db\<lparr>messages := filter (\<lambda>r. msg_conversation_hash r \<noteq> h) (messages db)\<rparr>"

definition delete_conversation :: "string \<Rightarrow> cache \<Rightarrow> cache" where
  "delete_conversation h db =
     db\<lparr>conversations := filter (\<lambda>r. conversation_hash r \<noteq> h) (conversations db)\<rparr>"

subsection \<open>The operations of \<^verbatim>\<open>ConversationCache\<close>\<close>

text \<open>
  \<^verbatim>\<open>hashlib.sha256(...).hexdigest()\<close> is library code; every operation that hashes takes
  it as the parameter \<open>sha256_hexdigest\<close>. The string that is hashed is built by the
  source's own loop.
\<close>

definition generate_conversation_hash ::
  "(string \<Rightarrow> string) \<Rightarrow> message list \<Rightarrow> string \<Rightarrow> string" where
  "generate_conversation_hash sha256_hexdigest msgs mdl =
     sha256_hexdigest
       (foldl (\<lambda>conversation_str msg. conversation_str @ role msg @ '':'' @ content msg @ '';'')
          (mdl @ '':'') msgs)"

text \<open>
  Every operation opens its own connection on the stored database \<open>s\<close> and returns what
  is stored when the connection is closed: the working copy when \<^verbatim>\<open>commit()\<close> was
  reached, \<open>s\<close> itself when the block was left before it (closing the connection rolls
  the open transaction back).

  The statements an operation executes are numbered from 0 in the order it runs them,
  \<^verbatim>\<open>commit()\<close> included. \<open>clock k\<close> is the reading \<^verbatim>\<open>CURRENT_TIMESTAMP\<close> takes when
  statement \<open>k\<close> runs: SQLite evaluates it once per statement.
\<close>

definition find_matching_conversation ::
  "(string \<Rightarrow> string) \<Rightarrow> message list \<Rightarrow> string \<Rightarrow> cache \<Rightarrow> string option \<times> cache" where
  "find_matching_conversation sha256_hexdigest msgs mdl s =
     (if butlast msgs = [] then (None, s)
      else
        (let h = generate_conversation_hash sha256_hexdigest (butlast msgs) mdl
         in (fetchone (select_url_by_hash h s), s)))"

text \<open>
  \<^verbatim>\<open>store_conversation\<close>. Besides the IntegrityError of a duplicate key, the database
  can raise \<^verbatim>\<open>sqlite3.OperationalError\<close> at any statement (the disk is full, the
  database is locked). \<open>fault\<close> is the number of the statement at which it does, if it
  does: statement 0 is the INSERT of the conversation, statements 1 to \<open>length msgs\<close>
  are the INSERTs of the loop, statement \<open>length msgs + 1\<close> is \<^verbatim>\<open>commit()\<close>.
  \<open>insert_messages\<close> is the loop \<^verbatim>\<open>for msg in messages\<close>, with \<open>k\<close> the number of its
  next statement. The INSERTs work on the connection's copy; only \<^verbatim>\<open>commit()\<close> makes
  it the stored database.
\<close>

fun insert_messages ::
  "(nat \<Rightarrow> datetime) \<Rightarrow> nat option \<Rightarrow> string \<Rightarrow> nat \<Rightarrow> message list \<Rightarrow> cache
     \<Rightarrow> error + cache" where
  "insert_messages clock fault h k [] db = Inr db"
| "insert_messages clock fault h k (msg # rest) db =
     (if fault = Some k then Inl OperationalError
      else insert_messages clock fault h (k + 1) rest
             (insert_message h (role msg) (content msg) (CURRENT_TIMESTAMP (clock k)) db))"

definition store_conversation ::
  "(string \<Rightarrow> string) \<Rightarrow> (nat \<Rightarrow> datetime) \<Rightarrow> nat option \<Rightarrow> message list \<Rightarrow> string \<Rightarrow> string
     \<Rightarrow> cache \<Rightarrow> (error + unit) \<times> cache" where
  "store_conversation sha256_hexdigest clock fault msgs mdl url s =
     (let h = generate_conversation_hash sha256_hexdigest msgs mdl
      in if fault = Some 0 then (Inl OperationalError, s)
         else
           (case insert_conversation h url mdl (CURRENT_TIMESTAMP (clock 0)) s of
              Inl e \<Rightarrow> (Inl e, s)
            | Inr db \<Rightarrow>
                (case insert_messages clock fault h 1 msgs db of
                   Inl e \<Rightarrow> (Inl e, s)
                 | Inr db' \<Rightarrow>
                     if fault = Some (length msgs + 1) then (Inl OperationalError, s)
                     else (Inr (), db'))))"

text \<open>
  \<^verbatim>\<open>update_conversation\<close>, on a database that does not raise. Statement 0 is the
  UPDATE, statement 1 the SELECT, statements 2 and 3 are the two INSERTs. When the
  SELECT finds no row the block is left before \<^verbatim>\<open>commit()\<close>.
\<close>

definition update_conversation ::
  "(nat \<Rightarrow> datetime) \<Rightarrow> string \<Rightarrow> message \<Rightarrow> string \<Rightarrow> cache \<Rightarrow> cache" where
  "update_conversation clock url new_message response_content s =
     (let db = update_last_used url (CURRENT_TIMESTAMP (clock 0)) s
      in case fetchone (select_hash_by_url url db) of
           None \<Rightarrow> s
         | Some h \<Rightarrow>
             insert_message h ''assistant'' response_content (CURRENT_TIMESTAMP (clock 3))
               (insert_message h (role new_message) (content new_message)
                  (CURRENT_TIMESTAMP (clock 2)) db))"

text \<open>
  One pass of the \<^verbatim>\<open>while True\<close> loop of \<^verbatim>\<open>_periodic_cleanup\<close>, with \<open>now\<close> the
  reading of \<^verbatim>\<open>datetime.now()\<close>. An exception inside the pass is caught and logged; the
  database is left as it was.
\<close>

definition periodic_cleanup :: "int \<Rightarrow> datetime \<Rightarrow> cache \<Rightarrow> cache" where
  "periodic_cleanup max_age now s =
     (case datetime_sub_seconds now max_age of
        Inl e \<Rightarrow> s
      | Inr cutoff_time \<Rightarrow>
          (let old_conversations = select_old (isoformat cutoff_time) s
           in foldl (\<lambda>db conv_hash. delete_conversation conv_hash (delete_messages conv_hash db))
                s old_conversations))"

text \<open>
  The message log of a conversation: the (role, content) pairs of the rows of
  \<^verbatim>\<open>messages\<close> that carry its hash, in rowid order.
\<close>

definition message_log :: "string \<Rightarrow> cache \<Rightarrow> message list" where
  "message_log h db =
     map (\<lambda>r. \<lparr>role = msg_role r, content = msg_content r\<rparr>)
       (filter (\<lambda>r. msg_conversation_hash r = h) (messages db))"

section \<open>The bridge (bridge.py)\<close>

subsection \<open>The page driver\<close>

text \<open>
  A Playwright page is modelled by what the bridge does to it and what it answers.
  \<^verbatim>\<open>actions\<close> is the log of the calls that act on the page, oldest first. The answers
  are scripts, consumed from the front: \<^verbatim>\<open>wait_script\<close> says for each coming
  \<^verbatim>\<open>wait_for_selector\<close> whether the element shows up before the timeout,
  \<^verbatim>\<open>query_script\<close> gives for each coming \<^verbatim>\<open>query_selector_all\<close> the text contents of
  the elements found, and \<^verbatim>\<open>poll_script\<close> gives for each pass of the streaming loop
  the text of the response element and whether the completion marker is present.
\<close>

datatype action = WaitForSelector string | Fill string string | Press string

record page =
  page_url :: string
  actions :: "action list"
  wait_script :: "bool list"
  query_script :: "string list list"
  poll_script :: "(string \<times> bool) list"

text \<open>
  The fields of \<^verbatim>\<open>LLMWebBridge\<close> that the message path reads or writes, the database
  of its cache, and the lines written with \<^verbatim>\<open>logger.warning\<close>.
\<close>

record bridge =
  current_model :: "string option"
  claude_page :: "page option"
  chatgpt_page :: "page option"
  cache_db :: cache
  warnings :: "string list"

text \<open>
  \<^verbatim>\<open>wait_for_selector\<close> raises Playwright's TimeoutError when the element does not
  show up. \<^verbatim>\<open>fill\<close> and \<^verbatim>\<open>press\<close> act on an element that was just waited for.
\<close>

definition wait_for_selector :: "string \<Rightarrow> page \<Rightarrow> error + page" where
  "wait_for_selector selector p =
     (case wait_script p of
        True # rest \<Rightarrow> Inr (p\<lparr>actions := actions p @ [WaitForSelector selector], wait_script := rest\<rparr>)
      | _ \<Rightarrow> Inl TimeoutError)"

definition fill :: "string \<Rightarrow> string \<Rightarrow> page \<Rightarrow> page" where
  "fill selector txt p = p\<lparr>actions := actions p @ [Fill selector txt]\<rparr>"

definition press :: "string \<Rightarrow> page \<Rightarrow> page" where
  "press key p = p\<lparr>actions := actions p @ [Press key]\<rparr>"

definition query_selector_all :: "string \<Rightarrow> page \<Rightarrow> string list \<times> page" where
  "query_selector_all selector p =
     (case query_script p of
        [] \<Rightarrow> ([], p)
      | found # rest \<Rightarrow> (found, p\<lparr>query_script := rest\<rparr>))"

subsection \<open>The current page\<close>

text \<open>
  \<^verbatim>\<open>_get_current_page\<close> picks the page by the provider prefix of the current model.
  The page object is mutated in place by the driver; \<open>set_current_page\<close> writes the
  page back to the field it was read from.
\<close>

definition ANTHROPIC :: string where
  "ANTHROPIC = ''aipi/anthropic''"

definition uses_claude :: "bridge \<Rightarrow> bool" where
  "uses_claude b =
     (case current_model b of None \<Rightarrow> False | Some m \<Rightarrow> m \<noteq> [] \<and> prefix ANTHROPIC m)"

definition get_current_page :: "bridge \<Rightarrow> page option" where
  "get_current_page b = (if uses_claude b then claude_page b else chatgpt_page b)"

definition set_current_page :: "bridge \<Rightarrow> page \<Rightarrow> bridge" where
  "set_current_page b p =
     (if uses_claude b then b\<lparr>claude_page := Some p\<rparr> else b\<lparr>chatgpt_page := Some p\<rparr>)"

definition input_selector :: "page \<Rightarrow> string" where
  \<open>input_selector p =
     (if sublist ''claude.ai'' (page_url p) then ''textarea[placeholder="Message Claude..."]''
      else ''textarea[placeholder="Send a message"]'')\<close>

definition response_selector :: "page \<Rightarrow> string" where
  "response_selector p =
     (if sublist ''claude.ai'' (page_url p) then ''.claude-response'' else ''.markdown'')"

definition complete_indicator :: string where
  "complete_indicator = ''.response-complete-indicator''"

subsection \<open>Sending messages\<close>

text \<open>
  \<^verbatim>\<open>_send_single_message\<close>: \<^verbatim>\<open>responses[-1]\<close> raises IndexError on an empty list; the
  text of the last response element is returned.
\<close>

definition send_single_message :: "string \<Rightarrow> bridge \<Rightarrow> error + (string \<times> bridge)" where
  "send_single_message message b =
     (case get_current_page b of
        None \<Rightarrow> Inl ValueError
      | Some p \<Rightarrow>
          (case wait_for_selector (input_selector p) p of
             Inl e \<Rightarrow> Inl e
           | Inr p1 \<Rightarrow>
               (case wait_for_selector (response_selector p)
                       (press ''Enter'' (fill (input_selector p) message p1)) of
                  Inl e \<Rightarrow> Inl e
                | Inr p2 \<Rightarrow>
                    (case query_selector_all (response_selector p) p2 of
                       (found, p3) \<Rightarrow>
                         if found = [] then Inl IndexError
                         else Inr (last found, set_current_page b p3)))))"

text \<open>
  The loop \<^verbatim>\<open>for msg in full_messages[:-1]\<close>, which \<^verbatim>\<open>send_message\<close> and
  \<^verbatim>\<open>stream_response\<close> both run, and its guard \<^verbatim>\<open>is_new_chat and full_messages\<close>.
\<close>

fun replay_history :: "message list \<Rightarrow> bridge \<Rightarrow> error + bridge" where
  "replay_history [] b = Inr b"
| "replay_history (msg # rest) b =
     (if role msg = ''user'' then
        (case send_single_message (content msg) b of
           Inl e \<Rightarrow> Inl e
         | Inr (response_text, b1) \<Rightarrow>
             (case get_current_page b1 of
                None \<Rightarrow> Inl AttributeError
              | Some p \<Rightarrow>
                  (case wait_for_selector complete_indicator p of
                     Inl e \<Rightarrow> Inl e
                   | Inr p1 \<Rightarrow> replay_history rest (set_current_page b1 p1))))
      else replay_history rest b)"

definition send_previous :: "bool \<Rightarrow> message list option \<Rightarrow> bridge \<Rightarrow> error + bridge" where
  "send_previous is_new_chat full_messages b =
     (case full_messages of
        None \<Rightarrow> Inr b
      | Some msgs \<Rightarrow> if is_new_chat \<and> msgs \<noteq> [] then replay_history (butlast msgs) b else Inr b)"

definition send_message ::
  "(nat \<Rightarrow> datetime) \<Rightarrow> string \<Rightarrow> bool \<Rightarrow> string \<Rightarrow> message list option \<Rightarrow> bridge
     \<Rightarrow> error + (string \<times> bridge)" where
  "send_message clock message is_new_chat chat_url full_messages b =
     (case send_previous is_new_chat full_messages b of
        Inl e \<Rightarrow> Inl e
      | Inr b1 \<Rightarrow>
          (case send_single_message message b1 of
             Inl e \<Rightarrow> Inl e
           | Inr (response_text, b2) \<Rightarrow>
               Inr (response_text,
                    b2\<lparr>cache_db := update_conversation clock chat_url
                          \<lparr>role = ''user'', content = message\<rparr> response_text (cache_db b2)\<rparr>)))"

subsection \<open>Streaming\<close>

text \<open>
  The local variables of the polling loop of \<^verbatim>\<open>stream_response\<close>, and the loop itself:
  \<open>read_content\<close> is the \<^verbatim>\<open>if current_content != prev_content\<close> block with the
  chunk it yields, \<open>check_complete\<close> the test of the completion marker.
  \<open>stream_loop\<close> runs the loop on the polls the page answers and returns the chunks
  yielded and the variables when the loop is left or the polls run out.
\<close>

record stream_state =
  prev_content :: string
  response_complete :: bool
  complete_wait_count :: nat

definition max_complete_wait :: nat where
  "max_complete_wait = 50"

definition stream_init :: stream_state where
  "stream_init = \<lparr>prev_content = [], response_complete = False, complete_wait_count = 0\<rparr>"

definition still_polling :: "stream_state \<Rightarrow> bool" where
  "still_polling st = (\<not> response_complete st \<and> complete_wait_count st < max_complete_wait)"

definition read_content :: "string \<Rightarrow> stream_state \<Rightarrow> string list \<times> stream_state" where
  "read_content current_content st =
     (if current_content \<noteq> prev_content st then
        (let new_content = drop (length (prev_content st)) current_content
         in (if new_content \<noteq> [] then [new_content] else [],
             st\<lparr>complete_wait_count := 0, prev_content := current_content\<rparr>))
      else ([], st))"

definition check_complete :: "bool \<Rightarrow> stream_state \<Rightarrow> stream_state" where
  "check_complete done_indicator st =
     (if done_indicator then st\<lparr>response_complete := True\<rparr>
      else st\<lparr>complete_wait_count := complete_wait_count st + 1\<rparr>)"

fun stream_loop :: "stream_state \<Rightarrow> (string \<times> bool) list \<Rightarrow> string list \<times> stream_state" where
  "stream_loop st [] = ([], st)"
| "stream_loop st ((current_content, done_indicator) # rest) =
     (if still_polling st then
        (case read_content current_content st of
           (out, st1) \<Rightarrow>
             (case stream_loop (check_complete done_indicator st1) rest of
                (later, st2) \<Rightarrow> (out @ later, st2)))
      else ([], st))"

text \<open>
  The parts of \<^verbatim>\<open>stream_response\<close> before and after the loop. \<^verbatim>\<open>stream_response\<close>
  is a generator: its result is the list of the chunks it has yielded, in order, and
  how it ended, with an exception or with the bridge it leaves. Chunks yielded before an
  exception have reached the caller. When the page answers no further poll while the
  loop is still running, the driver raises.
\<close>

definition stream_submit :: "string \<Rightarrow> bridge \<Rightarrow> error + (page \<times> bridge)" where
  "stream_submit message b =
     (case get_current_page b of
        None \<Rightarrow> Inl ValueError
      | Some p \<Rightarrow>
          (case wait_for_selector (input_selector p) p of
             Inl e \<Rightarrow> Inl e
           | Inr p1 \<Rightarrow>
               (case wait_for_selector (response_selector p)
                       (press ''Enter'' (fill (input_selector p) message p1)) of
                  Inl e \<Rightarrow> Inl e
                | Inr p2 \<Rightarrow>
                    (case query_selector_all (response_selector p) p2 of
                       (found, p3) \<Rightarrow>
                         if found = [] then Inl IndexError
                         else Inr (p3, set_current_page b p3)))))"

definition timeout_warning :: string where
  "timeout_warning = ''Response streaming timed out waiting for completion''"

definition stream_finish ::
  "(nat \<Rightarrow> datetime) \<Rightarrow> string \<Rightarrow> string \<Rightarrow> stream_state \<Rightarrow> bridge \<Rightarrow> bridge" where
  "stream_finish clock message chat_url st b =
     (let b1 = (if complete_wait_count st \<ge> max_complete_wait
                then b\<lparr>warnings := warnings b @ [timeout_warning]\<rparr> else b)
      in b1\<lparr>cache_db := update_conversation clock chat_url
               \<lparr>role = ''user'', content = message\<rparr> (prev_content st) (cache_db b1)\<rparr>)"

definition stream_response ::
  "(nat \<Rightarrow> datetime) \<Rightarrow> string \<Rightarrow> bool \<Rightarrow> string \<Rightarrow> message list option \<Rightarrow> bridge
     \<Rightarrow> string list \<times> (error + bridge)" where
  "stream_response clock message is_new_chat chat_url full_messages b =
     (case send_previous is_new_chat full_messages b of
        Inl e \<Rightarrow> ([], Inl e)
      | Inr b1 \<Rightarrow>
          (case stream_submit message b1 of
             Inl e \<Rightarrow> ([], Inl e)
           | Inr (p, b2) \<Rightarrow>
               (case stream_loop stream_init (poll_script p) of
                  (chunks, st) \<Rightarrow>
                    if still_polling st then (chunks, Inl PlaywrightError)
                    else (chunks, Inr (stream_finish clock message chat_url st b2)))))"

subsection \<open>Notions used to state the properties\<close>

text \<open>
  Snapshots that only ever grow: each one extends the one before it, the first one
  extends \<open>prev\<close>.
\<close>

fun appended_only :: "string \<Rightarrow> string list \<Rightarrow> bool" where
  "appended_only prev [] = True"
| "appended_only prev (x # xs) = (prefix prev x \<and> appended_only x xs)"

text \<open>
  The driver calls that submit one message on page \<open>p\<close>, and the calls the replay of
  the prior turns is expected to make: for each prior turn of role user, in order, its
  submission followed by the wait for the completion marker.
\<close>

definition submit_actions :: "page \<Rightarrow> string \<Rightarrow> action list" where
  "submit_actions p message =
     [WaitForSelector (input_selector p), Fill (input_selector p) message, Press ''Enter'',
      WaitForSelector (response_selector p)]"

definition replay_actions :: "page \<Rightarrow> message list \<Rightarrow> action list" where
  "replay_actions p prior =
     concat (map (\<lambda>msg. submit_actions p (content msg) @ [WaitForSelector complete_indicator])
       (filter (\<lambda>msg. role msg = ''user'') prior))"

subsection \<open>Concrete sessions\<close>

text \<open>Inputs at which the theorems below are exercised.\<close>

definition demo_cache :: cache where
  "demo_cache =
     \<lparr>conversations =
        [\<lparr>conversation_hash = ''h1'', web_chat_url = ''https://claude.ai/chat'', model = ''m'',
          last_used = ''2024-03-05 10:00:00'', created_at = ''2024-03-05 10:00:00''\<rparr>],
      messages =
        [\<lparr>msg_id = 1, msg_conversation_hash = ''h1'', msg_role = ''user'', msg_content = ''hi'',
          msg_timestamp = ''2024-03-05 10:00:00''\<rparr>],
      sqlite_sequence = 1\<rparr>"

definition demo_history :: "message list" where
  "demo_history =
     [\<lparr>role = ''user'', content = ''hi''\<rparr>, \<lparr>role = ''assistant'', content = ''hello''\<rparr>,
      \<lparr>role = ''user'', content = ''how are you''\<rparr>]"

definition demo_page :: page where
  "demo_page =
     \<lparr>page_url = ''https://claude.ai/chat'', actions = [],
      wait_script = [True, True, True, True, True],
      query_script = [[''hello''], [''hello'', ''fine'']],
      poll_script = [(''fine'', True)]\<rparr>"

definition demo_bridge :: bridge where
  "demo_bridge =
     \<lparr>current_model = Some ''aipi/anthropic/claude-3-opus'', claude_page = Some demo_page,
      chatgpt_page = None, cache_db = demo_cache, warnings = []\<rparr>"

definition quiet_page :: page where
  "quiet_page =
     \<lparr>page_url = ''https://chat.openai.com/'', actions = [], wait_script = [True, True],
      query_script = [[''Hel'']],
      poll_script = (''Hel'', False) # replicate 49 (''Hel'', False)\<rparr>"

definition quiet_bridge :: bridge where
  "quiet_bridge =
     \<lparr>current_model = Some ''aipi/openai/gpt-4'', claude_page = None,
      chatgpt_page = Some quiet_page, cache_db = demo_cache, warnings = []\<rparr>"

definition demo_clock :: "nat \<Rightarrow> datetime" where
  "demo_clock k =
     \<lparr>year = 2024, month = 3, day = 5, hour = 12, minute = 0, second = k, microsecond = 0\<rparr>"

definition hello_page :: page where
  "hello_page =
     \<lparr>page_url = ''https://chat.openai.com/'', actions = [], wait_script = [True, True],
      query_script = [['''']],
      poll_script =
        [('''', False), (''Hel'', False), (''Hello'', False), (''Hello there'', True)]\<rparr>"

definition hello_bridge :: bridge where
  "hello_bridge =
     \<lparr>current_model = Some ''aipi/openai/gpt-4'', claude_page = None,
      chatgpt_page = Some hello_page, cache_db = demo_cache, warnings = []\<rparr>"

section \<open>Properties of the cache\<close>

subsection \<open>Lookup\<close>

text \<open>
  C9. A history of fewer than two messages (the empty list included) has no prefix to
  match: \<^verbatim>\<open>find_matching_conversation\<close> returns none whatever the cache holds.
\<close>

theorem find_short_history_none:
  "length msgs < 2 \<Longrightarrow> fst (find_matching_conversation sha256_hexdigest msgs mdl s) = None"
  by (cases msgs) (auto simp: find_matching_conversation_def)

theorem find_short_history_none_witness:
  "length [\<lparr>role = ''user'', content = ''hi''\<rparr>] < 2 \<and>
   fst (find_matching_conversation (\<lambda>str. str) [\<lparr>role = ''user'', content = ''hi''\<rparr>] ''m''
          \<lparr>conversations = [\<lparr>conversation_hash = ''m:'', web_chat_url = ''u'', model = ''m'',
               last_used = ''2024-01-01 10:00:00'', created_at = ''2024-01-01 10:00:00''\<rparr>],
           messages = [], sqlite_sequence = 0\<rparr>) = None"
  using find_short_history_none [of "[\<lparr>role = ''user'', content = ''hi''\<rparr>]" "\<lambda>str. str" "''m''"
          "\<lparr>conversations = [\<lparr>conversation_hash = ''m:'', web_chat_url = ''u'', model = ''m'',
               last_used = ''2024-01-01 10:00:00'', created_at = ''2024-01-01 10:00:00''\<rparr>],
           messages = [], sqlite_sequence = 0\<rparr>"]
  by simp

text \<open>
  C10. A lookup is a pure read: the stored database after
  \<^verbatim>\<open>find_matching_conversation\<close> is the one before it, both tables and every
  \<^verbatim>\<open>last_used\<close> value included, on a hit as on a miss.
\<close>

theorem find_is_pure_read:
  "snd (find_matching_conversation sha256_hexdigest msgs mdl s) = s"
  by (simp add: find_matching_conversation_def Let_def)

subsection \<open>Store\<close>

lemma insert_messages_loop:
  "insert_messages clock fault h k msgs db =
     (if (case fault of None \<Rightarrow> False | Some f \<Rightarrow> k \<le> f \<and> f < k + length msgs)
      then Inl OperationalError
      else Inr (db\<lparr>messages := messages db @
                  map (\<lambda>(i, msg). \<lparr>msg_id = sqlite_sequence db + 1 + i,
                         msg_conversation_hash = h, msg_role = role msg,
                         msg_content = content msg,
                         msg_timestamp = CURRENT_TIMESTAMP (clock (k + i))\<rparr>)
                    (enumerate 0 msgs),
                sqlite_sequence := sqlite_sequence db + length msgs\<rparr>))"
proof (induction msgs arbitrary: k db)
  case Nil
  show ?case by (simp split: option.splits)
next
  case (Cons m ms)
  show ?case
  proof (cases "fault = Some k")
    case True
    then show ?thesis by simp
  next
    case False
    have shift: "enumerate (Suc 0) ms = map (\<lambda>(i, msg). (Suc i, msg)) (enumerate 0 ms)"
      by (simp add: enumerate_Suc_eq apfst_def map_prod_def)
    have cond: "(case fault of None \<Rightarrow> False | Some f \<Rightarrow> k \<le> f \<and> f < k + length (m # ms)) =
        (case fault of None \<Rightarrow> False | Some f \<Rightarrow> k + 1 \<le> f \<and> f < k + 1 + length ms)"
      using False by (auto split: option.splits)
    show ?thesis
      using False
      by (simp only: insert_messages.simps if_False Cons.IH cond)
         (simp add: insert_message_def shift case_prod_beta o_def)
  qed
qed

lemma store_conversation_cases:
  "store_conversation sha256_hexdigest clock fault msgs mdl url s =
     (if fault = Some 0 then (Inl OperationalError, s)
      else if generate_conversation_hash sha256_hexdigest msgs mdl
                \<in> set (map conversation_hash (conversations s))
      then (Inl IntegrityError, s)
      else if (case fault of None \<Rightarrow> False | Some f \<Rightarrow> f \<le> length msgs + 1)
      then (Inl OperationalError, s)
      else (Inr (),
            s\<lparr>conversations := conversations s @
                 [\<lparr>conversation_hash = generate_conversation_hash sha256_hexdigest msgs mdl,
                   web_chat_url = url, model = mdl, last_used = CURRENT_TIMESTAMP (clock 0),
                   created_at = CURRENT_TIMESTAMP (clock 0)\<rparr>],
              messages := messages s @
                 map (\<lambda>(i, msg). \<lparr>msg_id = sqlite_sequence s + 1 + i,
                        msg_conversation_hash = generate_conversation_hash sha256_hexdigest msgs mdl,
                        msg_role = role msg, msg_content = content msg,
                        msg_timestamp = CURRENT_TIMESTAMP (clock (1 + i))\<rparr>)
                   (enumerate 0 msgs),
              sqlite_sequence := sqlite_sequence s + length msgs\<rparr>))"
proof (cases fault)
  case None
  then show ?thesis
    by (simp add: store_conversation_def insert_conversation_def insert_messages_loop Let_def)
next
  case (Some f)
  then show ?thesis
    by (auto simp: store_conversation_def insert_conversation_def insert_messages_loop Let_def)
qed

text \<open>
  C8. \<^verbatim>\<open>store_conversation\<close> fails when the fingerprint of the full message list is
  already a key, or when the database raises at one of its statements: at the INSERT of
  the conversation, at any INSERT of a message, or at \<^verbatim>\<open>commit()\<close>. In each of these
  cases the stored database is the one before the call, so no row of either table
  persists, also not the rows inserted before the failing statement. Otherwise it
  succeeds and has added exactly one conversation row keyed by that fingerprint and
  one message row per entry of the list, with the entry's role and content, in order.
\<close>

theorem store_atomic_complete:
  "store_conversation sha256_hexdigest clock fault msgs mdl url s =
     (if fault = Some 0 then (Inl OperationalError, s)
      else if generate_conversation_hash sha256_hexdigest msgs mdl
                \<in> set (map conversation_hash (conversations s))
      then (Inl IntegrityError, s)
      else if (case fault of None \<Rightarrow> False | Some f \<Rightarrow> f \<le> length msgs + 1)
      then (Inl OperationalError, s)
      else (Inr (),
            s\<lparr>conversations := conversations s @
                 [\<lparr>conversation_hash = generate_conversation_hash sha256_hexdigest msgs mdl,
                   web_chat_url = url, model = mdl, last_used = CURRENT_TIMESTAMP (clock 0),
                   created_at = CURRENT_TIMESTAMP (clock 0)\<rparr>],
              messages := messages s @
                 map (\<lambda>(i, msg). \<lparr>msg_id = sqlite_sequence s + 1 + i,
                        msg_conversation_hash = generate_conversation_hash sha256_hexdigest msgs mdl,
                        msg_role = role msg, msg_content = content msg,
                        msg_timestamp = CURRENT_TIMESTAMP (clock (1 + i))\<rparr>)
                   (enumerate 0 msgs),
              sqlite_sequence := sqlite_sequence s + length msgs\<rparr>))"
  by (rule store_conversation_cases)

text \<open>
  The theorem at a store of two messages into \<open>demo_cache\<close>: when the database raises at
  the INSERT of the second message (statement 2), after the conversation row and the
  first message row were inserted, and when it raises at \<^verbatim>\<open>commit()\<close> (statement 3),
  the stored database is still \<open>demo_cache\<close>; without a fault all three rows are stored.
\<close>

theorem store_atomic_complete_witness:
  "store_conversation (\<lambda>str. str) demo_clock (Some 2)
       [\<lparr>role = ''user'', content = ''a''\<rparr>, \<lparr>role = ''assistant'', content = ''b''\<rparr>] ''m'' ''u''
       demo_cache = (Inl OperationalError, demo_cache) \<and>
   store_conversation (\<lambda>str. str) demo_clock (Some 3)
       [\<lparr>role = ''user'', content = ''a''\<rparr>, \<lparr>role = ''assistant'', content = ''b''\<rparr>] ''m'' ''u''
       demo_cache = (Inl OperationalError, demo_cache) \<and>
   store_conversation (\<lambda>str. str) demo_clock None
       [\<lparr>role = ''user'', content = ''a''\<rparr>, \<lparr>role = ''assistant'', content = ''b''\<rparr>] ''m'' ''u''
       demo_cache =
     (Inr (),
      \<lparr>conversations =
         [\<lparr>conversation_hash = ''h1'', web_chat_url = ''https://claude.ai/chat'', model = ''m'',
           last_used = ''2024-03-05 10:00:00'', created_at = ''2024-03-05 10:00:00''\<rparr>,
          \<lparr>conversation_hash = ''m:user:a;assistant:b;'', web_chat_url = ''u'', model = ''m'',
           last_used = ''2024-03-05 12:00:00'', created_at = ''2024-03-05 12:00:00''\<rparr>],
       messages =
         [\<lparr>msg_id = 1, msg_conversation_hash = ''h1'', msg_role = ''user'', msg_content = ''hi'',
           msg_timestamp = ''2024-03-05 10:00:00''\<rparr>,
          \<lparr>msg_id = 2, msg_conversation_hash = ''m:user:a;assistant:b;'', msg_role = ''user'',
           msg_content = ''a'', msg_timestamp = ''2024-03-05 12:00:01''\<rparr>,
          \<lparr>msg_id = 3, msg_conversation_hash = ''m:user:a;assistant:b;'',
           msg_role = ''assistant'', msg_content = ''b'',
           msg_timestamp = ''2024-03-05 12:00:02''\<rparr>],
       sqlite_sequence = 3\<rparr>)"
  using
    store_atomic_complete [of "\<lambda>str. str" demo_clock "Some 2"
      "[\<lparr>role = ''user'', content = ''a''\<rparr>, \<lparr>role = ''assistant'', content = ''b''\<rparr>]" "''m''"
      "''u''" demo_cache]
    store_atomic_complete [of "\<lambda>str. str" demo_clock "Some 3"
      "[\<lparr>role = ''user'', content = ''a''\<rparr>, \<lparr>role = ''assistant'', content = ''b''\<rparr>]" "''m''"
      "''u''" demo_cache]
    store_atomic_complete [of "\<lambda>str. str" demo_clock None
      "[\<lparr>role = ''user'', content = ''a''\<rparr>, \<lparr>role = ''assistant'', content = ''b''\<rparr>]" "''m''"
      "''u''" demo_cache]
  by (simp add: generate_conversation_hash_def demo_cache_def demo_clock_def
      CURRENT_TIMESTAMP_def d4_def d2_def digit_def enumerate_eq_zip upt_rec)

lemma store_success:
  assumes "store_conversation sha256_hexdigest clock fault msgs mdl url s = (Inr u, s')"
  shows "generate_conversation_hash sha256_hexdigest msgs mdl \<notin> set (map conversation_hash (conversations s))"
    and "conversations s' = conversations s @
                 [\<lparr>conversation_hash = generate_conversation_hash sha256_hexdigest msgs mdl,
                   web_chat_url = url, model = mdl, last_used = CURRENT_TIMESTAMP (clock 0),
                   created_at = CURRENT_TIMESTAMP (clock 0)\<rparr>]"
  using assms
  by (auto simp: store_conversation_cases split: if_splits)

lemma filter_hash_absent:
  "h \<notin> set (map conversation_hash rows) \<Longrightarrow> filter (\<lambda>r. conversation_hash r = h) rows = []"
  by (induction rows) auto

text \<open>
  C1. After \<^verbatim>\<open>store_conversation\<close> has succeeded on a non-empty message list, a lookup
  of that list extended by any one new turn, for the same model, returns the stored URL:
  the lookup fingerprints all messages but the last, the store fingerprints them all.
\<close>

theorem store_then_find:
  assumes "msgs \<noteq> []"
    and "store_conversation sha256_hexdigest clock fault msgs mdl url s = (Inr (), s')"
  shows "fst (find_matching_conversation sha256_hexdigest (msgs @ [new_turn]) mdl s') = Some url"
proof -
  let ?h = "generate_conversation_hash sha256_hexdigest msgs mdl"
  have absent: "?h \<notin> set (map conversation_hash (conversations s))"
    using assms(2) by (rule store_success(1))
  have rows: "conversations s' = conversations s @
                 [\<lparr>conversation_hash = ?h, web_chat_url = url, model = mdl,
                   last_used = CURRENT_TIMESTAMP (clock 0),
                   created_at = CURRENT_TIMESTAMP (clock 0)\<rparr>]"
    using assms(2) by (rule store_success(2))
  have "select_url_by_hash ?h s' = [url]"
    by (simp add: select_url_by_hash_def rows filter_hash_absent [OF absent])
  then show ?thesis
    using assms(1) by (simp add: find_matching_conversation_def fetchone_def)
qed

theorem store_then_find_witness:
  "[\<lparr>role = ''user'', content = ''hi''\<rparr>] \<noteq> [] \<and>
   store_conversation (\<lambda>str. str) demo_clock None
       [\<lparr>role = ''user'', content = ''hi''\<rparr>] ''m'' ''https://claude.ai/chat''
       \<lparr>conversations = [], messages = [], sqlite_sequence = 0\<rparr>
     = (Inr (),
        \<lparr>conversations = [\<lparr>conversation_hash = ''m:user:hi;'', web_chat_url = ''https://claude.ai/chat'',
             model = ''m'', last_used = ''2024-03-05 12:00:00'', created_at = ''2024-03-05 12:00:00''\<rparr>],
         messages = [\<lparr>msg_id = 1, msg_conversation_hash = ''m:user:hi;'', msg_role = ''user'',
             msg_content = ''hi'', msg_timestamp = ''2024-03-05 12:00:01''\<rparr>],
         sqlite_sequence = 1\<rparr>) \<and>
   fst (find_matching_conversation (\<lambda>str. str)
          ([\<lparr>role = ''user'', content = ''hi''\<rparr>] @ [\<lparr>role = ''user'', content = ''how are you''\<rparr>]) ''m''
        \<lparr>conversations = [\<lparr>conversation_hash = ''m:user:hi;'', web_chat_url = ''https://claude.ai/chat'',
             model = ''m'', last_used = ''2024-03-05 12:00:00'', created_at = ''2024-03-05 12:00:00''\<rparr>],
         messages = [\<lparr>msg_id = 1, msg_conversation_hash = ''m:user:hi;'', msg_role = ''user'',
             msg_content = ''hi'', msg_timestamp = ''2024-03-05 12:00:01''\<rparr>],
         sqlite_sequence = 1\<rparr>) = Some ''https://claude.ai/chat''"
proof -
  have st: "store_conversation (\<lambda>str. str) demo_clock None
       [\<lparr>role = ''user'', content = ''hi''\<rparr>] ''m'' ''https://claude.ai/chat''
       \<lparr>conversations = [], messages = [], sqlite_sequence = 0\<rparr>
     = (Inr (),
        \<lparr>conversations = [\<lparr>conversation_hash = ''m:user:hi;'', web_chat_url = ''https://claude.ai/chat'',
             model = ''m'', last_used = ''2024-03-05 12:00:00'', created_at = ''2024-03-05 12:00:00''\<rparr>],
         messages = [\<lparr>msg_id = 1, msg_conversation_hash = ''m:user:hi;'', msg_role = ''user'',
             msg_content = ''hi'', msg_timestamp = ''2024-03-05 12:00:01''\<rparr>],
         sqlite_sequence = 1\<rparr>)"
    by (simp add: store_conversation_def insert_conversation_def insert_message_def
        generate_conversation_hash_def demo_clock_def CURRENT_TIMESTAMP_def d4_def d2_def digit_def
        Let_def)
  have ne: "[\<lparr>role = ''user'', content = ''hi''\<rparr>] \<noteq> []" by simp
  show ?thesis
    using store_then_find [OF ne st, of "\<lparr>role = ''user'', content = ''how are you''\<rparr>"] st ne
    by simp
qed

subsection \<open>Fingerprint\<close>

text \<open>
  C2. The fingerprint is a function of its input, but it is not injective: message
  contents are joined with unescaped separators, so a single message whose content holds
  \<^verbatim>\<open>;user:\<close> is serialised to the same string as two messages, and the two different
  histories get the same digest whatever the hash function is.
\<close>

theorem fingerprint_collision:
  "[\<lparr>role = ''user'', content = ''a;user:b''\<rparr>]
     \<noteq> [\<lparr>role = ''user'', content = ''a''\<rparr>, \<lparr>role = ''user'', content = ''b''\<rparr>] \<and>
   generate_conversation_hash sha256_hexdigest [\<lparr>role = ''user'', content = ''a;user:b''\<rparr>] mdl =
   generate_conversation_hash sha256_hexdigest
     [\<lparr>role = ''user'', content = ''a''\<rparr>, \<lparr>role = ''user'', content = ''b''\<rparr>] mdl"
  by (simp add: generate_conversation_hash_def)

subsection \<open>Update\<close>

lemma select_hash_after_refresh:
  "select_hash_by_url url (update_last_used url ts db) = select_hash_by_url url db"
proof -
  have "map conversation_hash (filter (\<lambda>r. web_chat_url r = url)
          (map (\<lambda>r. if web_chat_url r = url then r\<lparr>last_used := ts\<rparr> else r) rows)) =
        map conversation_hash (filter (\<lambda>r. web_chat_url r = url) rows)"
    for rows :: "conversation_row list"
    by (induction rows) auto
  then show ?thesis
    by (simp add: select_hash_by_url_def update_last_used_def)
qed

lemma message_log_insert:
  "message_log g (insert_message h r c ts db) =
     message_log g db @ (if g = h then [\<lparr>role = r, content = c\<rparr>] else [])"
  by (simp add: message_log_def insert_message_def)

lemma message_log_refresh: "message_log g (update_last_used url ts db) = message_log g db"
  by (simp add: message_log_def update_last_used_def)

lemma conversations_insert_message: "conversations (insert_message h r c ts db) = conversations db"
  by (simp add: insert_message_def)

lemma conversations_refresh:
  "conversations (update_last_used url ts db) =
     map (\<lambda>r. if web_chat_url r = url then r\<lparr>last_used := ts\<rparr> else r) (conversations db)"
  by (simp add: update_last_used_def)

text \<open>The text of \<^verbatim>\<open>CURRENT_TIMESTAMP\<close> orders valid readings as the clock does.\<close>

lemma digit_value:
  assumes "k < 10"
  shows "(of_char (digit k) :: nat) = 48 + k"
proof -
  from assms have "k = 0 \<or> k = 1 \<or> k = 2 \<or> k = 3 \<or> k = 4 \<or> k = 5 \<or> k = 6 \<or> k = 7 \<or> k = 8 \<or> k = 9"
    by arith
  then show ?thesis
    by (elim disjE) (simp_all add: digit_def)
qed

lemma digit_less:
  "i < 10 \<Longrightarrow> j < 10 \<Longrightarrow> ((of_char (digit i) :: nat) < of_char (digit j)) = (i < j)"
  by (simp add: digit_value)

lemma digit_eq: "i < 10 \<Longrightarrow> j < 10 \<Longrightarrow> (digit i = digit j) = (i = j)"
  by (metis digit_value add_left_cancel)

lemma digit_mod: "digit n = digit (n mod 10)"
  by (simp add: digit_def)

lemma lex_div_mod:
  fixes a b k :: nat
  shows "(a div k < b div k \<or> (a div k = b div k \<and> a mod k < b mod k)) = (a < b)"
proof (cases "a div k = b div k")
  case True
  have "a = k * (b div k) + a mod k"
    by (metis True mult_div_mod_eq)
  moreover have "b = k * (b div k) + b mod k"
    by simp
  ultimately have "(a < b) = (a mod k < b mod k)"
    by (metis nat_add_left_cancel_less)
  with True show ?thesis by simp
next
  case False
  have "a div k < b div k \<Longrightarrow> a < b"
    by (metis div_le_mono not_le)
  moreover have "a < b \<Longrightarrow> a div k < b div k"
    using False by (metis div_le_mono less_imp_le le_neq_implies_less)
  ultimately show ?thesis
    using False by blast
qed

lemma eq_div_mod:
  fixes a b k :: nat
  shows "(a div k = b div k \<and> a mod k = b mod k) = (a = b)"
  by (metis div_mult_mod_eq)

lemma lex_step:
  fixes a b k :: nat
  shows "(a div k < b div k \<or>
          (a div k = b div k \<and> (a mod k < b mod k \<or> (a mod k = b mod k \<and> T)))) =
         (a < b \<or> (a = b \<and> T))"
proof -
  have "(a div k < b div k \<or>
          (a div k = b div k \<and> (a mod k < b mod k \<or> (a mod k = b mod k \<and> T)))) =
        ((a div k < b div k \<or> (a div k = b div k \<and> a mod k < b mod k)) \<or>
         ((a div k = b div k \<and> a mod k = b mod k) \<and> T))"
    by blast
  then show ?thesis
    by (simp only: lex_div_mod eq_div_mod)
qed

lemma text_lt_d2:
  assumes "a < 100" and "b < 100"
  shows "text_lt (d2 a @ x) (d2 b @ y) = (a < b \<or> (a = b \<and> text_lt x y))"
proof -
  have hi: "a div 10 < 10" "b div 10 < 10" and lo: "a mod 10 < 10" "b mod 10 < 10"
    using assms by simp_all
  have "text_lt (d2 a @ x) (d2 b @ y) =
      (a div 10 < b div 10 \<or>
       (a div 10 = b div 10 \<and> (a mod 10 < b mod 10 \<or> (a mod 10 = b mod 10 \<and> text_lt x y))))"
    unfolding d2_def digit_mod [of a] digit_mod [of b]
    by (simp add: digit_less [OF hi] digit_eq [OF hi] digit_less [OF lo] digit_eq [OF lo])
  also have "\<dots> = (a < b \<or> (a = b \<and> text_lt x y))"
    by (rule lex_step)
  finally show ?thesis .
qed

lemma d2_mod: "d2 n = d2 (n mod 100)"
proof -
  have "n mod (10 * 10) = 10 * (n div 10 mod 10) + n mod 10"
    by (rule mod_mult2_eq)
  then have "n mod 100 div 10 = n div 10 mod 10"
    by simp
  then have hi: "digit (n mod 100 div 10) = digit (n div 10)"
    by (metis digit_mod)
  have "n mod 100 mod 10 = n mod 10"
    by (simp add: mod_mod_cancel)
  then have lo: "digit (n mod 100) = digit n"
    by (metis digit_mod)
  show ?thesis
    by (simp add: d2_def hi lo)
qed

lemma text_lt_d4:
  assumes "a < 10000" and "b < 10000"
  shows "text_lt (d4 a @ x) (d4 b @ y) = (a < b \<or> (a = b \<and> text_lt x y))"
proof -
  have hi: "a div 100 < 100" "b div 100 < 100" and lo: "a mod 100 < 100" "b mod 100 < 100"
    using assms by simp_all
  have "text_lt (d4 a @ x) (d4 b @ y) =
      text_lt (d2 (a div 100) @ d2 (a mod 100) @ x) (d2 (b div 100) @ d2 (b mod 100) @ y)"
    by (simp add: d4_def d2_mod [of a] d2_mod [of b])
  also have "\<dots> =
      (a div 100 < b div 100 \<or>
       (a div 100 = b div 100 \<and>
        (a mod 100 < b mod 100 \<or> (a mod 100 = b mod 100 \<and> text_lt x y))))"
    by (simp only: text_lt_d2 [OF hi] text_lt_d2 [OF lo])
  also have "\<dots> = (a < b \<or> (a = b \<and> text_lt x y))"
    by (rule lex_step)
  finally show ?thesis .
qed

lemma CURRENT_TIMESTAMP_order:
  assumes "valid_datetime a" and "valid_datetime b"
  shows "text_lt (CURRENT_TIMESTAMP a) (CURRENT_TIMESTAMP b) = earlier_second a b"
proof -
  have y: "year a < 10000" "year b < 10000"
    and m: "month a < 100" "month b < 100"
    and d: "day a < 100" "day b < 100"
    and h: "hour a < 100" "hour b < 100"
    and mi: "minute a < 100" "minute b < 100"
    and se: "second a < 100" "second b < 100"
    using assms by (simp_all add: valid_datetime_def)
  have last: "text_lt (d2 (second a)) (d2 (second b)) = (second a < second b)"
    using text_lt_d2 [OF se, of "[]" "[]"] by simp
  show ?thesis
    by (simp add: CURRENT_TIMESTAMP_def earlier_second_def second_key_def
        text_lt_d4 [OF y] text_lt_d2 [OF m] text_lt_d2 [OF d] text_lt_d2 [OF h] text_lt_d2 [OF mi]
        last)
qed

text \<open>
  C5, as amended. When no conversation is stored under the URL,
  \<^verbatim>\<open>update_conversation\<close> leaves the database unchanged. When exactly one conversation
  \<open>h\<close> is stored under it, the message log of \<open>h\<close> grows by exactly two entries, the
  caller's message followed by an assistant message with the response, every other log
  is unchanged, and the last-used time of \<open>h\<close> is set to the timestamp of the UPDATE
  statement; it has advanced when that statement runs in a later clock second than the
  one that wrote the stored value.
\<close>

theorem update_postcondition:
  "(select_hash_by_url url s = [] \<longrightarrow>
      update_conversation clock url new_message response_content s = s) \<and>
   (select_hash_by_url url s = [h] \<longrightarrow>
      message_log h (update_conversation clock url new_message response_content s) =
        message_log h s @ [new_message, \<lparr>role = ''assistant'', content = response_content\<rparr>] \<and>
      (g \<noteq> h \<longrightarrow>
         message_log g (update_conversation clock url new_message response_content s) =
           message_log g s) \<and>
      conversations (update_conversation clock url new_message response_content s) =
        map (\<lambda>r. if web_chat_url r = url then r\<lparr>last_used := CURRENT_TIMESTAMP (clock 0)\<rparr> else r)
          (conversations s) \<and>
      (r \<in> set (conversations s) \<and> web_chat_url r = url \<and>
       last_used r = CURRENT_TIMESTAMP t \<and> valid_datetime t \<and> valid_datetime (clock 0) \<and>
       earlier_second t (clock 0) \<longrightarrow>
         r\<lparr>last_used := CURRENT_TIMESTAMP (clock 0)\<rparr>
           \<in> set (conversations (update_conversation clock url new_message response_content s)) \<and>
         text_lt (last_used r) (last_used (r\<lparr>last_used := CURRENT_TIMESTAMP (clock 0)\<rparr>))))"
proof (intro conjI impI)
  assume "select_hash_by_url url s = []"
  then show "update_conversation clock url new_message response_content s = s"
    by (simp add: update_conversation_def Let_def select_hash_after_refresh fetchone_def)
next
  assume one: "select_hash_by_url url s = [h]"
  then have run: "update_conversation clock url new_message response_content s =
      insert_message h ''assistant'' response_content (CURRENT_TIMESTAMP (clock 3))
        (insert_message h (role new_message) (content new_message) (CURRENT_TIMESTAMP (clock 2))
           (update_last_used url (CURRENT_TIMESTAMP (clock 0)) s))"
    by (simp add: update_conversation_def Let_def select_hash_after_refresh fetchone_def)
  show "message_log h (update_conversation clock url new_message response_content s) =
      message_log h s @ [new_message, \<lparr>role = ''assistant'', content = response_content\<rparr>]"
    by (simp add: run message_log_insert message_log_refresh)
  show rows: "conversations (update_conversation clock url new_message response_content s) =
      map (\<lambda>r. if web_chat_url r = url then r\<lparr>last_used := CURRENT_TIMESTAMP (clock 0)\<rparr> else r)
        (conversations s)"
    by (simp add: run conversations_insert_message conversations_refresh)
  {
    assume "g \<noteq> h"
    then show "message_log g (update_conversation clock url new_message response_content s) =
        message_log g s"
      by (simp add: run message_log_insert message_log_refresh)
  }
  {
    assume a: "r \<in> set (conversations s) \<and> web_chat_url r = url \<and>
       last_used r = CURRENT_TIMESTAMP t \<and> valid_datetime t \<and> valid_datetime (clock 0) \<and>
       earlier_second t (clock 0)"
    then show "r\<lparr>last_used := CURRENT_TIMESTAMP (clock 0)\<rparr>
        \<in> set (conversations (update_conversation clock url new_message response_content s))"
      by (auto simp: rows intro!: image_eqI [where x = r])
    from a show "text_lt (last_used r) (last_used (r\<lparr>last_used := CURRENT_TIMESTAMP (clock 0)\<rparr>))"
      by (simp add: CURRENT_TIMESTAMP_order)
  }
qed

theorem update_postcondition_witness:
  "select_hash_by_url ''https://chat.openai.com/'' demo_cache = [] \<and>
   update_conversation demo_clock ''https://chat.openai.com/'' \<lparr>role = ''user'', content = ''q''\<rparr>
     ''resp'' demo_cache = demo_cache \<and>
   select_hash_by_url ''https://claude.ai/chat'' demo_cache = [''h1''] \<and>
   ''h2'' \<noteq> ''h1'' \<and>
   valid_datetime
     \<lparr>year = 2024, month = 3, day = 5, hour = 10, minute = 0, second = 0, microsecond = 0\<rparr> \<and>
   valid_datetime (demo_clock 0) \<and>
   earlier_second
     \<lparr>year = 2024, month = 3, day = 5, hour = 10, minute = 0, second = 0, microsecond = 0\<rparr>
     (demo_clock 0) \<and>
   message_log ''h1''
     (update_conversation demo_clock ''https://claude.ai/chat'' \<lparr>role = ''user'', content = ''q''\<rparr>
        ''resp'' demo_cache) =
     [\<lparr>role = ''user'', content = ''hi''\<rparr>, \<lparr>role = ''user'', content = ''q''\<rparr>,
      \<lparr>role = ''assistant'', content = ''resp''\<rparr>] \<and>
   message_log ''h2''
     (update_conversation demo_clock ''https://claude.ai/chat'' \<lparr>role = ''user'', content = ''q''\<rparr>
        ''resp'' demo_cache) = [] \<and>
   map last_used (conversations demo_cache) = [''2024-03-05 10:00:00''] \<and>
   map last_used
     (conversations
        (update_conversation demo_clock ''https://claude.ai/chat''
           \<lparr>role = ''user'', content = ''q''\<rparr> ''resp'' demo_cache)) = [''2024-03-05 12:00:00''] \<and>
   text_lt ''2024-03-05 10:00:00'' ''2024-03-05 12:00:00''"
proof -
  have none: "select_hash_by_url ''https://chat.openai.com/'' demo_cache = []"
    by (simp add: select_hash_by_url_def demo_cache_def)
  have one: "select_hash_by_url ''https://claude.ai/chat'' demo_cache = [''h1'']"
    by (simp add: select_hash_by_url_def demo_cache_def)
  have valid: "valid_datetime
      \<lparr>year = 2024, month = 3, day = 5, hour = 10, minute = 0, second = 0, microsecond = 0\<rparr>"
    "valid_datetime (demo_clock 0)"
    by (simp_all add: valid_datetime_def demo_clock_def)
  have earlier: "earlier_second
      \<lparr>year = 2024, month = 3, day = 5, hour = 10, minute = 0, second = 0, microsecond = 0\<rparr>
      (demo_clock 0)"
    by (simp add: earlier_second_def second_key_def demo_clock_def)
  have logs: "message_log ''h1'' demo_cache = [\<lparr>role = ''user'', content = ''hi''\<rparr>]"
    "message_log ''h2'' demo_cache = []"
    by (simp_all add: message_log_def demo_cache_def)
  have stamps: "CURRENT_TIMESTAMP (demo_clock 0) = ''2024-03-05 12:00:00''"
    "CURRENT_TIMESTAMP
       \<lparr>year = 2024, month = 3, day = 5, hour = 10, minute = 0, second = 0, microsecond = 0\<rparr>
     = ''2024-03-05 10:00:00''"
    by (simp_all add: demo_clock_def CURRENT_TIMESTAMP_def d4_def d2_def digit_def)
  have rows: "conversations demo_cache =
      [\<lparr>conversation_hash = ''h1'', web_chat_url = ''https://claude.ai/chat'', model = ''m'',
        last_used = ''2024-03-05 10:00:00'', created_at = ''2024-03-05 10:00:00''\<rparr>]"
    by (simp add: demo_cache_def)
  from
    update_postcondition [of "''https://chat.openai.com/''" demo_cache demo_clock
      "\<lparr>role = ''user'', content = ''q''\<rparr>" "''resp''"]
    update_postcondition [of "''https://claude.ai/chat''" demo_cache demo_clock
      "\<lparr>role = ''user'', content = ''q''\<rparr>" "''resp''" "''h1''" "''h2''"
      "\<lparr>conversation_hash = ''h1'', web_chat_url = ''https://claude.ai/chat'', model = ''m'',
        last_used = ''2024-03-05 10:00:00'', created_at = ''2024-03-05 10:00:00''\<rparr>"
      "\<lparr>year = 2024, month = 3, day = 5, hour = 10, minute = 0, second = 0, microsecond = 0\<rparr>"]
  show ?thesis
    by (simp add: none one valid earlier logs stamps rows)
qed

text \<open>
  C5, as stated, fails in two ways at one input. Two conversations are stored under
  one URL, and the call runs in the clock second in which both were last used. The log
  of the second conversation does not grow, and no last-used time has advanced.
\<close>

theorem update_shared_url_counterexample:
  "select_hash_by_url ''https://claude.ai/chat''
     \<lparr>conversations =
        [\<lparr>conversation_hash = ''h1'', web_chat_url = ''https://claude.ai/chat'', model = ''m'',
          last_used = ''2024-03-05 12:00:00'', created_at = ''2024-03-05 10:00:00''\<rparr>,
         \<lparr>conversation_hash = ''h2'', web_chat_url = ''https://claude.ai/chat'', model = ''m'',
          last_used = ''2024-03-05 12:00:00'', created_at = ''2024-03-05 11:00:00''\<rparr>],
      messages =
        [\<lparr>msg_id = 1, msg_conversation_hash = ''h1'', msg_role = ''user'', msg_content = ''a'',
          msg_timestamp = ''2024-03-05 10:00:00''\<rparr>,
         \<lparr>msg_id = 2, msg_conversation_hash = ''h2'', msg_role = ''user'', msg_content = ''b'',
          msg_timestamp = ''2024-03-05 11:00:00''\<rparr>],
      sqlite_sequence = 2\<rparr> = [''h1'', ''h2''] \<and>
   CURRENT_TIMESTAMP (demo_clock 0) = ''2024-03-05 12:00:00'' \<and>
   message_log ''h2''
     (update_conversation demo_clock
        ''https://claude.ai/chat'' \<lparr>role = ''user'', content = ''q''\<rparr> ''resp''
        \<lparr>conversations =
           [\<lparr>conversation_hash = ''h1'', web_chat_url = ''https://claude.ai/chat'', model = ''m'',
             last_used = ''2024-03-05 12:00:00'', created_at = ''2024-03-05 10:00:00''\<rparr>,
            \<lparr>conversation_hash = ''h2'', web_chat_url = ''https://claude.ai/chat'', model = ''m'',
             last_used = ''2024-03-05 12:00:00'', created_at = ''2024-03-05 11:00:00''\<rparr>],
         messages =
           [\<lparr>msg_id = 1, msg_conversation_hash = ''h1'', msg_role = ''user'', msg_content = ''a'',
             msg_timestamp = ''2024-03-05 10:00:00''\<rparr>,
            \<lparr>msg_id = 2, msg_conversation_hash = ''h2'', msg_role = ''user'', msg_content = ''b'',
             msg_timestamp = ''2024-03-05 11:00:00''\<rparr>],
         sqlite_sequence = 2\<rparr>)
     = [\<lparr>role = ''user'', content = ''b''\<rparr>] \<and>
   map last_used
     (conversations
        (update_conversation demo_clock
           ''https://claude.ai/chat'' \<lparr>role = ''user'', content = ''q''\<rparr> ''resp''
           \<lparr>conversations =
              [\<lparr>conversation_hash = ''h1'', web_chat_url = ''https://claude.ai/chat'', model = ''m'',
                last_used = ''2024-03-05 12:00:00'', created_at = ''2024-03-05 10:00:00''\<rparr>,
               \<lparr>conversation_hash = ''h2'', web_chat_url = ''https://claude.ai/chat'', model = ''m'',
                last_used = ''2024-03-05 12:00:00'', created_at = ''2024-03-05 11:00:00''\<rparr>],
            messages =
              [\<lparr>msg_id = 1, msg_conversation_hash = ''h1'', msg_role = ''user'', msg_content = ''a'',
                msg_timestamp = ''2024-03-05 10:00:00''\<rparr>,
               \<lparr>msg_id = 2, msg_conversation_hash = ''h2'', msg_role = ''user'', msg_content = ''b'',
                msg_timestamp = ''2024-03-05 11:00:00''\<rparr>],
            sqlite_sequence = 2\<rparr>))
     = [''2024-03-05 12:00:00'', ''2024-03-05 12:00:00''] \<and>
   \<not> text_lt ''2024-03-05 12:00:00'' ''2024-03-05 12:00:00''"
  by (simp add: select_hash_by_url_def update_conversation_def update_last_used_def fetchone_def
      insert_message_def message_log_def Let_def demo_clock_def CURRENT_TIMESTAMP_def d4_def
      d2_def digit_def)

subsection \<open>Eviction\<close>

lemmas date_defs = datetime_sub_seconds_def ymd2ord_def days_before_year_def days_before_month_def
  DAYS_BEFORE_MONTH_def DAYS_IN_MONTH_def is_leap_def ord2ymd_def Let_def

lemmas fmt_defs = isoformat_def CURRENT_TIMESTAMP_def d4_def d2_def d6_def digit_def

text \<open>
  C4. A sweep with a maximum age of one day, run at 00:02 on 6 March, has its cutoff
  at 00:02 on 5 March. A conversation last used at 23:59 on 5 March is younger than the
  cutoff, yet the sweep deletes it with its messages: \<^verbatim>\<open>last_used\<close> is stored with a
  space between date and time, the cutoff is passed with a \<^verbatim>\<open>T\<close>, and the space
  compares lower.
\<close>

theorem cleanup_deletes_recent:
  "CURRENT_TIMESTAMP
     \<lparr>year = 2024, month = 3, day = 5, hour = 23, minute = 59, second = 0, microsecond = 0\<rparr>
     = ''2024-03-05 23:59:00'' \<and>
   datetime_sub_seconds
     \<lparr>year = 2024, month = 3, day = 6, hour = 0, minute = 2, second = 0, microsecond = 0\<rparr> 86400
     = Inr \<lparr>year = 2024, month = 3, day = 5, hour = 0, minute = 2, second = 0, microsecond = 0\<rparr> \<and>
   dt_less
     \<lparr>year = 2024, month = 3, day = 5, hour = 0, minute = 2, second = 0, microsecond = 0\<rparr>
     \<lparr>year = 2024, month = 3, day = 5, hour = 23, minute = 59, second = 0, microsecond = 0\<rparr> \<and>
   periodic_cleanup 86400
     \<lparr>year = 2024, month = 3, day = 6, hour = 0, minute = 2, second = 0, microsecond = 0\<rparr>
     \<lparr>conversations =
        [\<lparr>conversation_hash = ''h1'', web_chat_url = ''https://claude.ai/chat'', model = ''m'',
          last_used = ''2024-03-05 23:59:00'', created_at = ''2024-03-05 23:59:00''\<rparr>],
      messages =
        [\<lparr>msg_id = 1, msg_conversation_hash = ''h1'', msg_role = ''user'', msg_content = ''hi'',
          msg_timestamp = ''2024-03-05 23:59:00''\<rparr>],
      sqlite_sequence = 1\<rparr>
     = \<lparr>conversations = [], messages = [], sqlite_sequence = 1\<rparr>"
proof -
  have used: "CURRENT_TIMESTAMP
     \<lparr>year = 2024, month = 3, day = 5, hour = 23, minute = 59, second = 0, microsecond = 0\<rparr>
     = ''2024-03-05 23:59:00''"
    by (simp add: fmt_defs)
  have cutoff: "datetime_sub_seconds
     \<lparr>year = 2024, month = 3, day = 6, hour = 0, minute = 2, second = 0, microsecond = 0\<rparr> 86400
     = Inr \<lparr>year = 2024, month = 3, day = 5, hour = 0, minute = 2, second = 0, microsecond = 0\<rparr>"
    by (simp add: date_defs)
  have iso: "isoformat
     \<lparr>year = 2024, month = 3, day = 5, hour = 0, minute = 2, second = 0, microsecond = 0\<rparr>
     = ''2024-03-05T00:02:00''"
    by (simp add: fmt_defs)
  have later: "dt_less
     \<lparr>year = 2024, month = 3, day = 5, hour = 0, minute = 2, second = 0, microsecond = 0\<rparr>
     \<lparr>year = 2024, month = 3, day = 5, hour = 23, minute = 59, second = 0, microsecond = 0\<rparr>"
    by (simp add: dt_less_def dt_key_def)
  have sweep: "periodic_cleanup 86400
     \<lparr>year = 2024, month = 3, day = 6, hour = 0, minute = 2, second = 0, microsecond = 0\<rparr>
     \<lparr>conversations =
        [\<lparr>conversation_hash = ''h1'', web_chat_url = ''https://claude.ai/chat'', model = ''m'',
          last_used = ''2024-03-05 23:59:00'', created_at = ''2024-03-05 23:59:00''\<rparr>],
      messages =
        [\<lparr>msg_id = 1, msg_conversation_hash = ''h1'', msg_role = ''user'', msg_content = ''hi'',
          msg_timestamp = ''2024-03-05 23:59:00''\<rparr>],
      sqlite_sequence = 1\<rparr>
     = \<lparr>conversations = [], messages = [], sqlite_sequence = 1\<rparr>"
    by (simp add: periodic_cleanup_def cutoff iso select_old_def delete_messages_def
        delete_conversation_def)
  show ?thesis
    using used cutoff later sweep by blast
qed

section \<open>Properties of the bridge\<close>

subsection \<open>The streaming loop\<close>

lemma stream_loop_stopped: "\<not> still_polling st \<Longrightarrow> stream_loop st ps = ([], st)"
  by (cases ps) auto

lemma stream_loop_append:
  "stream_loop st (ps @ qs) =
     (case stream_loop st ps of
        (cs, st1) \<Rightarrow> (case stream_loop st1 qs of (ds, st2) \<Rightarrow> (cs @ ds, st2)))"
proof (induction ps arbitrary: st)
  case Nil
  show ?case by (simp split: prod.splits)
next
  case (Cons p ps)
  obtain c d where p: "p = (c, d)" by (cases p)
  show ?case
  proof (cases "still_polling st")
    case True
    then show ?thesis
      by (simp add: p Cons.IH split: prod.splits)
  next
    case False
    then show ?thesis
      by (simp add: p stream_loop_stopped)
  qed
qed

lemma read_content_prev: "prev_content (snd (read_content c st)) = c"
  by (simp add: read_content_def Let_def)

lemma check_complete_prev: "prev_content (check_complete d st) = prev_content st"
  by (simp add: check_complete_def)

lemma read_content_chunks:
  assumes "prefix (prev_content st) c"
  shows "prev_content st @ concat (fst (read_content c st)) = c"
    and "[] \<notin> set (fst (read_content c st))"
proof -
  from assms obtain z where z: "c = prev_content st @ z"
    by (auto simp: prefix_def)
  show "prev_content st @ concat (fst (read_content c st)) = c"
    by (simp add: read_content_def Let_def z)
  show "[] \<notin> set (fst (read_content c st))"
    by (simp add: read_content_def Let_def)
qed

lemma stream_loop_invariant:
  "appended_only (prev_content st) (map fst ps) \<Longrightarrow>
     prev_content st @ concat (fst (stream_loop st ps)) = prev_content (snd (stream_loop st ps)) \<and>
     [] \<notin> set (fst (stream_loop st ps))"
proof (induction ps arbitrary: st)
  case Nil
  show ?case by simp
next
  case (Cons p ps)
  obtain c d where p: "p = (c, d)" by (cases p)
  show ?case
  proof (cases "still_polling st")
    case False
    then show ?thesis by (simp add: p)
  next
    case True
    obtain out st1 where r: "read_content c st = (out, st1)" by (cases "read_content c st")
    from Cons.prems have pre: "prefix (prev_content st) c" and rest: "appended_only c (map fst ps)"
      by (simp_all add: p)
    have st1: "prev_content st1 = c"
      using read_content_prev [of c st] by (simp add: r)
    have out: "prev_content st @ concat out = c" "[] \<notin> set out"
      using read_content_chunks [OF pre] by (simp_all add: r)
    let ?st2 = "check_complete d st1"
    have "appended_only (prev_content ?st2) (map fst ps)"
      using rest by (simp add: check_complete_prev st1)
    from Cons.IH [OF this]
    have ih: "c @ concat (fst (stream_loop ?st2 ps)) = prev_content (snd (stream_loop ?st2 ps))"
      "[] \<notin> set (fst (stream_loop ?st2 ps))"
      by (simp_all add: check_complete_prev st1)
    obtain later st3 where l: "stream_loop ?st2 ps = (later, st3)" by (cases "stream_loop ?st2 ps")
    have run: "stream_loop st (p # ps) = (out @ later, st3)"
      using True by (simp add: p r l)
    show ?thesis
      using ih out by (simp add: run l) (metis append.assoc)
  qed
qed

lemma stream_loop_last_read:
  assumes "ps \<noteq> []" and "still_polling (snd (stream_loop st (butlast ps)))"
  shows "prev_content (snd (stream_loop st ps)) = fst (last ps)"
proof -
  obtain c d where lp: "last ps = (c, d)" by (cases "last ps")
  have split: "ps = butlast ps @ [(c, d)]"
    using assms(1) lp by (metis append_butlast_last_id)
  obtain cs st1 where b: "stream_loop st (butlast ps) = (cs, st1)"
    by (cases "stream_loop st (butlast ps)")
  have "stream_loop st ps =
      (case stream_loop st1 [(c, d)] of (ds, st2) \<Rightarrow> (cs @ ds, st2))"
    using stream_loop_append [of st "butlast ps" "[(c, d)]"] split b by simp
  moreover have "still_polling st1" using assms(2) b by simp
  ultimately show ?thesis
    using read_content_prev [of c st1]
    by (simp add: lp check_complete_prev split: prod.splits)
qed

lemma stream_response_chunks:
  assumes "send_previous is_new_chat full_messages b = Inr b1"
    and "stream_submit message b1 = Inr (p, b2)"
  shows "stream_response clock message is_new_chat chat_url full_messages b =
     (fst (stream_loop stream_init (poll_script p)),
      if still_polling (snd (stream_loop stream_init (poll_script p))) then Inl PlaywrightError
      else Inr (stream_finish clock message chat_url
                  (snd (stream_loop stream_init (poll_script p))) b2))"
  by (simp add: stream_response_def assms split: prod.splits)

text \<open>
  C3. Let the replay and the submission of the message succeed, and let every
  snapshot the page then shows extend the one before it. The chunks \<^verbatim>\<open>stream_response\<close>
  yields are those of its polling loop; none of them is empty; their concatenation is the
  loop's last snapshot, which is the text of the last poll when the loop was still
  running before it; and when the generator ends normally, that concatenation is the
  response text it hands to the cache.
\<close>

theorem stream_increments:
  assumes "send_previous is_new_chat full_messages b = Inr b1"
    and "stream_submit message b1 = Inr (p, b2)"
    and "appended_only [] (map fst (poll_script p))"
  shows "(case stream_response clock message is_new_chat chat_url full_messages b of
            (chunks, ending) \<Rightarrow>
              chunks = fst (stream_loop stream_init (poll_script p)) \<and>
              [] \<notin> set chunks \<and>
              concat chunks = prev_content (snd (stream_loop stream_init (poll_script p))) \<and>
              (poll_script p \<noteq> [] \<and>
               still_polling (snd (stream_loop stream_init (butlast (poll_script p)))) \<longrightarrow>
                 concat chunks = fst (last (poll_script p))) \<and>
              (case ending of
                 Inl e \<Rightarrow> e = PlaywrightError
               | Inr b' \<Rightarrow>
                   cache_db b' =
                     update_conversation clock chat_url \<lparr>role = ''user'', content = message\<rparr>
                       (concat chunks) (cache_db b2)))"
proof -
  let ?ps = "poll_script p"
  have "appended_only (prev_content stream_init) (map fst ?ps)"
    using assms(3) by (simp add: stream_init_def)
  from stream_loop_invariant [OF this]
  have inv: "concat (fst (stream_loop stream_init ?ps)) = prev_content (snd (stream_loop stream_init ?ps))"
    "[] \<notin> set (fst (stream_loop stream_init ?ps))"
    by (simp_all add: stream_init_def)
  have final: "?ps \<noteq> [] \<and> still_polling (snd (stream_loop stream_init (butlast ?ps))) \<longrightarrow>
      concat (fst (stream_loop stream_init ?ps)) = fst (last ?ps)"
    using inv(1) stream_loop_last_read [of ?ps stream_init] by simp
  have finish: "cache_db (stream_finish clock message chat_url (snd (stream_loop stream_init ?ps)) b2) =
      update_conversation clock chat_url \<lparr>role = ''user'', content = message\<rparr>
        (concat (fst (stream_loop stream_init ?ps))) (cache_db b2)"
    by (simp add: stream_finish_def Let_def inv(1))
  show ?thesis
    using inv final finish
    by (simp add: stream_response_chunks [OF assms(1,2)])
qed

lemmas stream_eval = still_polling_def read_content_def check_complete_def stream_init_def
  max_complete_wait_def Let_def

lemmas driver_eval = send_single_message_def stream_submit_def get_current_page_def
  set_current_page_def uses_claude_def ANTHROPIC_def wait_for_selector_def fill_def press_def
  query_selector_all_def input_selector_def response_selector_def complete_indicator_def
  sublist_code

theorem stream_increments_witness:
  "send_previous False None hello_bridge = Inr hello_bridge \<and>
   stream_submit ''hi'' hello_bridge =
     Inr (hello_page\<lparr>actions := submit_actions hello_page ''hi'', wait_script := [],
                     query_script := []\<rparr>,
          hello_bridge\<lparr>chatgpt_page :=
            Some (hello_page\<lparr>actions := submit_actions hello_page ''hi'', wait_script := [],
                              query_script := []\<rparr>)\<rparr>) \<and>
   appended_only [] (map fst (poll_script hello_page)) \<and>
   poll_script hello_page \<noteq> [] \<and>
   still_polling (snd (stream_loop stream_init (butlast (poll_script hello_page)))) \<and>
   fst (last (poll_script hello_page)) = ''Hello there'' \<and>
   (case stream_response demo_clock ''hi'' False ''https://claude.ai/chat'' None hello_bridge of
      (chunks, Inl e) \<Rightarrow> False
    | (chunks, Inr b') \<Rightarrow>
        chunks = [''Hel'', ''lo'', '' there''] \<and> concat chunks = ''Hello there'' \<and>
        cache_db b' =
          update_conversation demo_clock ''https://claude.ai/chat''
            \<lparr>role = ''user'', content = ''hi''\<rparr> ''Hello there'' demo_cache)"
proof -
  let ?p = "hello_page\<lparr>actions := submit_actions hello_page ''hi'', wait_script := [],
                     query_script := []\<rparr>"
  let ?b = "hello_bridge\<lparr>chatgpt_page := Some ?p\<rparr>"
  have prev: "send_previous False None hello_bridge = Inr hello_bridge"
    by (simp add: send_previous_def)
  have submit: "stream_submit ''hi'' hello_bridge = Inr (?p, ?b)"
    by (simp add: hello_bridge_def hello_page_def submit_actions_def driver_eval)
  have same: "poll_script ?p = poll_script hello_page"
    by simp
  have polls: "poll_script hello_page =
      [('''', False), (''Hel'', False), (''Hello'', False), (''Hello there'', True)]"
    by (simp add: hello_page_def)
  have mono0: "appended_only [] (map fst (poll_script hello_page))"
    by (simp add: polls)
  have ne: "poll_script hello_page \<noteq> []"
    by (simp add: polls)
  have lastp: "fst (last (poll_script hello_page)) = ''Hello there''"
    by (simp add: polls)
  have mono: "appended_only [] (map fst (poll_script ?p))"
    using mono0 by (simp only: same)
  have loop: "stream_loop stream_init (poll_script hello_page) =
      ([''Hel'', ''lo'', '' there''],
       \<lparr>prev_content = ''Hello there'', response_complete = True, complete_wait_count = 0\<rparr>)"
    by (simp add: polls stream_eval)
  have before: "still_polling (snd (stream_loop stream_init (butlast (poll_script hello_page))))"
    by (simp add: polls stream_eval)
  have cache: "cache_db ?b = demo_cache"
    by (simp add: hello_bridge_def)
  have sr: "stream_response demo_clock ''hi'' False ''https://claude.ai/chat'' None hello_bridge =
      ([''Hel'', ''lo'', '' there''],
       Inr (stream_finish demo_clock ''hi'' ''https://claude.ai/chat''
              \<lparr>prev_content = ''Hello there'', response_complete = True,
                 complete_wait_count = 0\<rparr> ?b))"
    by (simp only: stream_response_chunks [OF prev submit] same loop fst_conv snd_conv)
       (simp add: still_polling_def)
  from stream_increments [OF prev submit mono, of demo_clock "''https://claude.ai/chat''",
      unfolded sr prod.case sum.case same loop fst_conv snd_conv cache]
  have stored: "cache_db (stream_finish demo_clock ''hi'' ''https://claude.ai/chat''
              \<lparr>prev_content = ''Hello there'', response_complete = True,
                 complete_wait_count = 0\<rparr> ?b) =
      update_conversation demo_clock ''https://claude.ai/chat''
        \<lparr>role = ''user'', content = ''hi''\<rparr> ''Hello there'' demo_cache"
    by simp
  show ?thesis
    by (simp only: sr prod.case sum.case stored prev submit mono0 ne before lastp) simp
qed

subsection \<open>Replay of prior turns\<close>

lemma get_set_current_page: "get_current_page (set_current_page b p) = Some p"
  by (simp add: get_current_page_def set_current_page_def uses_claude_def)

lemma set_set_current_page: "set_current_page (set_current_page b p) q = set_current_page b q"
  by (simp add: set_current_page_def uses_claude_def)

lemma set_get_current_page: "get_current_page b = Some p \<Longrightarrow> set_current_page b p = b"
  by (auto simp: get_current_page_def set_current_page_def split: if_splits)

lemma cache_set_current_page: "cache_db (set_current_page b p) = cache_db b"
  by (simp add: set_current_page_def)

lemma warnings_set_current_page: "warnings (set_current_page b p) = warnings b"
  by (simp add: set_current_page_def)

lemma wait_for_selector_effect:
  "wait_for_selector selector p = Inr p' \<Longrightarrow>
     actions p' = actions p @ [WaitForSelector selector] \<and> page_url p' = page_url p \<and>
     poll_script p' = poll_script p"
  by (auto simp: wait_for_selector_def split: list.splits bool.splits)

lemma submit_selectors:
  "page_url p' = page_url p \<Longrightarrow> submit_actions p' message = submit_actions p message"
  by (simp add: submit_actions_def input_selector_def response_selector_def)

lemma send_single_message_effect:
  assumes "send_single_message message b = Inr (txt, b')" and "get_current_page b = Some p"
  shows "\<exists>p'. b' = set_current_page b p' \<and> actions p' = actions p @ submit_actions p message \<and>
              page_url p' = page_url p \<and> poll_script p' = poll_script p"
proof -
  from assms obtain p1 p2 found p3 where
    w1: "wait_for_selector (input_selector p) p = Inr p1" and
    w2: "wait_for_selector (response_selector p)
           (press ''Enter'' (fill (input_selector p) message p1)) = Inr p2" and
    q: "query_selector_all (response_selector p) p2 = (found, p3)" and
    b': "b' = set_current_page b p3"
    by (auto simp: send_single_message_def split: sum.splits prod.splits if_splits)
  have a1: "actions p1 = actions p @ [WaitForSelector (input_selector p)]"
    "page_url p1 = page_url p" "poll_script p1 = poll_script p"
    using wait_for_selector_effect [OF w1] by simp_all
  have a2: "actions p2 = actions p1 @ [Fill (input_selector p) message, Press ''Enter'',
       WaitForSelector (response_selector p)]" "page_url p2 = page_url p1"
       "poll_script p2 = poll_script p1"
    using wait_for_selector_effect [OF w2] by (simp_all add: press_def fill_def)
  have a3: "actions p3 = actions p2" "page_url p3 = page_url p2" "poll_script p3 = poll_script p2"
    using q by (auto simp: query_selector_all_def split: list.splits)
  show ?thesis
    using b' a1 a2 a3 by (intro exI [of _ p3]) (simp add: submit_actions_def)
qed

lemma stream_submit_effect:
  assumes "stream_submit message b = Inr (q, b')" and "get_current_page b = Some p"
  shows "b' = set_current_page b q \<and> actions q = actions p @ submit_actions p message \<and>
         page_url q = page_url p \<and> poll_script q = poll_script p"
proof -
  from assms obtain p1 p2 found where
    w1: "wait_for_selector (input_selector p) p = Inr p1" and
    w2: "wait_for_selector (response_selector p)
           (press ''Enter'' (fill (input_selector p) message p1)) = Inr p2" and
    q: "query_selector_all (response_selector p) p2 = (found, q)" and
    b': "b' = set_current_page b q"
    by (auto simp: stream_submit_def split: sum.splits prod.splits if_splits)
  have a1: "actions p1 = actions p @ [WaitForSelector (input_selector p)]"
    "page_url p1 = page_url p" "poll_script p1 = poll_script p"
    using wait_for_selector_effect [OF w1] by simp_all
  have a2: "actions p2 = actions p1 @ [Fill (input_selector p) message, Press ''Enter'',
       WaitForSelector (response_selector p)]" "page_url p2 = page_url p1"
       "poll_script p2 = poll_script p1"
    using wait_for_selector_effect [OF w2] by (simp_all add: press_def fill_def)
  have a3: "actions q = actions p2" "page_url q = page_url p2" "poll_script q = poll_script p2"
    using q by (auto simp: query_selector_all_def split: list.splits)
  show ?thesis
    using b' a1 a2 a3 by (simp add: submit_actions_def)
qed

lemma replay_history_effect:
  assumes "replay_history prior b = Inr b'" and "get_current_page b = Some p"
  shows "\<exists>p'. b' = set_current_page b p' \<and> actions p' = actions p @ replay_actions p prior \<and>
              page_url p' = page_url p \<and> poll_script p' = poll_script p"
  using assms
proof (induction prior arbitrary: b p)
  case Nil
  then show ?case
    by (auto simp: replay_actions_def set_get_current_page intro!: exI [of _ p])
next
  case (Cons msg rest)
  show ?case
  proof (cases "role msg = ''user''")
    case False
    with Cons.prems have "replay_history rest b = Inr b'" by simp
    from Cons.IH [OF this Cons.prems(2)] show ?thesis
      using False by (simp add: replay_actions_def)
  next
    case True
    with Cons.prems(1) obtain resp b1 q q1 where
      s: "send_single_message (content msg) b = Inr (resp, b1)" and
      g: "get_current_page b1 = Some q" and
      w: "wait_for_selector complete_indicator q = Inr q1" and
      r: "replay_history rest (set_current_page b1 q1) = Inr b'"
      by (auto split: sum.splits option.splits prod.splits)
    from send_single_message_effect [OF s Cons.prems(2)] obtain p1 where
      p1: "b1 = set_current_page b p1" "actions p1 = actions p @ submit_actions p (content msg)"
        "page_url p1 = page_url p" "poll_script p1 = poll_script p"
      by blast
    have "q = p1" using g p1(1) by (simp add: get_set_current_page)
    with wait_for_selector_effect [OF w] p1 have
      q1: "actions q1 = actions p @ submit_actions p (content msg) @ [WaitForSelector complete_indicator]"
        "page_url q1 = page_url p" "poll_script q1 = poll_script p"
      by simp_all
    have "get_current_page (set_current_page b1 q1) = Some q1"
      by (rule get_set_current_page)
    from Cons.IH [OF r this] obtain p' where
      p': "b' = set_current_page (set_current_page b1 q1) p'"
        "actions p' = actions q1 @ replay_actions q1 rest"
        "page_url p' = page_url q1" "poll_script p' = poll_script q1"
      by blast
    have same: "replay_actions q1 rest = replay_actions p rest"
      by (simp add: replay_actions_def submit_actions_def input_selector_def response_selector_def
          q1(2))
    have "b' = set_current_page b p'"
      using p'(1) p1(1) by (simp add: set_set_current_page)
    moreover have "actions p' = actions p @ replay_actions p (msg # rest)"
      using p'(2) q1(1) same True by (simp add: replay_actions_def)
    ultimately show ?thesis
      using p'(3,4) q1(2,3) by (intro exI [of _ p']) simp
  qed
qed

lemma get_current_page_cache_update:
  "get_current_page (b\<lparr>cache_db := c\<rparr>) = get_current_page b"
  by (simp add: get_current_page_def uses_claude_def)

lemma get_current_page_stream_finish:
  "get_current_page (stream_finish clock message chat_url st b) = get_current_page b"
  by (simp add: stream_finish_def get_current_page_def uses_claude_def Let_def)

lemma cache_stream_finish:
  "cache_db (stream_finish clock message chat_url st b) =
     update_conversation clock chat_url \<lparr>role = ''user'', content = message\<rparr> (prev_content st)
       (cache_db b)"
  by (simp add: stream_finish_def Let_def)

text \<open>
  C6. On a new conversation with a non-empty history, a call of \<^verbatim>\<open>send_message\<close> or
  of \<^verbatim>\<open>stream_response\<close> that returns has made exactly these driver calls: for each
  prior turn (all but the last entry) of role user, in order, its submission and then
  the wait for the completion marker, and after them the submission of the final
  message. No other turn is replayed. The cache is then updated with the final message
  and the response text.
\<close>

theorem replay_user_turns:
  assumes "msgs \<noteq> []" and "get_current_page b = Some p"
  shows "(send_message clock message True chat_url (Some msgs) b = Inr (response_text, b') \<longrightarrow>
            map_option actions (get_current_page b') =
              Some (actions p @ replay_actions p (butlast msgs) @ submit_actions p message) \<and>
            cache_db b' =
              update_conversation clock chat_url \<lparr>role = ''user'', content = message\<rparr> response_text
                (cache_db b)) \<and>
         (stream_response clock message True chat_url (Some msgs) b = (chunks, Inr b'') \<longrightarrow>
            map_option actions (get_current_page b'') =
              Some (actions p @ replay_actions p (butlast msgs) @ submit_actions p message) \<and>
            chunks = fst (stream_loop stream_init (poll_script p)) \<and>
            cache_db b'' =
              update_conversation clock chat_url \<lparr>role = ''user'', content = message\<rparr>
                (prev_content (snd (stream_loop stream_init (poll_script p)))) (cache_db b))"
proof (intro conjI impI)
  assume run: "send_message clock message True chat_url (Some msgs) b = Inr (response_text, b')"
  then obtain b1 b2 where
    r: "replay_history (butlast msgs) b = Inr b1" and
    s: "send_single_message message b1 = Inr (response_text, b2)" and
    b': "b' = b2\<lparr>cache_db := update_conversation clock chat_url
            \<lparr>role = ''user'', content = message\<rparr> response_text (cache_db b2)\<rparr>"
    using assms(1)
    by (auto simp: send_message_def send_previous_def split: sum.splits prod.splits)
  from replay_history_effect [OF r assms(2)] obtain p1 where
    p1: "b1 = set_current_page b p1" "actions p1 = actions p @ replay_actions p (butlast msgs)"
      "page_url p1 = page_url p"
    by blast
  have g1: "get_current_page b1 = Some p1"
    by (simp add: p1(1) get_set_current_page)
  from send_single_message_effect [OF s g1] obtain p2 where
    p2: "b2 = set_current_page b1 p2" "actions p2 = actions p1 @ submit_actions p1 message"
    by blast
  have sel: "submit_actions p1 message = submit_actions p message"
    using p1(3) by (rule submit_selectors)
  show "map_option actions (get_current_page b') =
      Some (actions p @ replay_actions p (butlast msgs) @ submit_actions p message)"
    by (simp add: b' get_current_page_cache_update p2 get_set_current_page p1(2) sel)
  show "cache_db b' =
      update_conversation clock chat_url \<lparr>role = ''user'', content = message\<rparr> response_text
        (cache_db b)"
    by (simp add: b' p2(1) p1(1) cache_set_current_page)
next
  assume run: "stream_response clock message True chat_url (Some msgs) b = (chunks, Inr b'')"
  then obtain b1 q b2 where
    r: "replay_history (butlast msgs) b = Inr b1" and
    s: "stream_submit message b1 = Inr (q, b2)" and
    c: "chunks = fst (stream_loop stream_init (poll_script q))" and
    b'': "b'' = stream_finish clock message chat_url (snd (stream_loop stream_init (poll_script q))) b2"
    using assms(1)
    by (auto simp: stream_response_def send_previous_def
        split: sum.splits prod.splits if_splits)
  from replay_history_effect [OF r assms(2)] obtain p1 where
    p1: "b1 = set_current_page b p1" "actions p1 = actions p @ replay_actions p (butlast msgs)"
      "page_url p1 = page_url p" "poll_script p1 = poll_script p"
    by blast
  have g1: "get_current_page b1 = Some p1"
    by (simp add: p1(1) get_set_current_page)
  from stream_submit_effect [OF s g1] have
    q: "b2 = set_current_page b1 q" "actions q = actions p1 @ submit_actions p1 message"
      "poll_script q = poll_script p1"
    by simp_all
  have sel: "submit_actions p1 message = submit_actions p message"
    using p1(3) by (rule submit_selectors)
  show "map_option actions (get_current_page b'') =
      Some (actions p @ replay_actions p (butlast msgs) @ submit_actions p message)"
    by (simp add: b'' get_current_page_stream_finish q get_set_current_page p1(2) sel)
  show "chunks = fst (stream_loop stream_init (poll_script p))"
    by (simp add: c q(3) p1(4))
  show "cache_db b'' =
      update_conversation clock chat_url \<lparr>role = ''user'', content = message\<rparr>
        (prev_content (snd (stream_loop stream_init (poll_script p)))) (cache_db b)"
    by (simp add: b'' cache_stream_finish q(1,3) p1(1,4) cache_set_current_page)
qed

theorem replay_user_turns_witness:
  \<open>demo_history \<noteq> [] \<and> get_current_page demo_bridge = Some demo_page \<and>
   (case send_message demo_clock ''how are you'' True ''https://claude.ai/chat'' (Some demo_history)
           demo_bridge of
      Inl e \<Rightarrow> False
    | Inr (response_text, b') \<Rightarrow>
        response_text = ''fine'' \<and>
        map_option actions (get_current_page b') =
          Some [WaitForSelector ''textarea[placeholder="Message Claude..."]'',
                Fill ''textarea[placeholder="Message Claude..."]'' ''hi'',
                Press ''Enter'',
                WaitForSelector ''.claude-response'',
                WaitForSelector ''.response-complete-indicator'',
                WaitForSelector ''textarea[placeholder="Message Claude..."]'',
                Fill ''textarea[placeholder="Message Claude..."]'' ''how are you'',
                Press ''Enter'',
                WaitForSelector ''.claude-response''] \<and>
        cache_db b' =
          update_conversation demo_clock ''https://claude.ai/chat''
            \<lparr>role = ''user'', content = ''how are you''\<rparr> ''fine'' demo_cache) \<and>
   (case stream_response demo_clock ''how are you'' True ''https://claude.ai/chat'' (Some demo_history)
           demo_bridge of
      (chunks, Inl e) \<Rightarrow> False
    | (chunks, Inr b'') \<Rightarrow>
        chunks = [''fine''] \<and>
        map_option actions (get_current_page b'') =
          Some [WaitForSelector ''textarea[placeholder="Message Claude..."]'',
                Fill ''textarea[placeholder="Message Claude..."]'' ''hi'',
                Press ''Enter'',
                WaitForSelector ''.claude-response'',
                WaitForSelector ''.response-complete-indicator'',
                WaitForSelector ''textarea[placeholder="Message Claude..."]'',
                Fill ''textarea[placeholder="Message Claude..."]'' ''how are you'',
                Press ''Enter'',
                WaitForSelector ''.claude-response''] \<and>
        cache_db b'' =
          update_conversation demo_clock ''https://claude.ai/chat''
            \<lparr>role = ''user'', content = ''how are you''\<rparr> ''fine'' demo_cache)\<close>
proof -
  have ne: "demo_history \<noteq> []"
    by (simp add: demo_history_def)
  have gp: "get_current_page demo_bridge = Some demo_page"
    by (simp add: demo_bridge_def get_current_page_def uses_claude_def ANTHROPIC_def)
  have "\<exists>b'. send_message demo_clock ''how are you'' True ''https://claude.ai/chat''
          (Some demo_history) demo_bridge = Inr (''fine'', b')"
    by (simp add: send_message_def send_previous_def demo_history_def demo_bridge_def
        demo_page_def driver_eval)
  then obtain b' where sm: "send_message demo_clock ''how are you'' True ''https://claude.ai/chat''
          (Some demo_history) demo_bridge = Inr (''fine'', b')" ..
  have "\<exists>b''. stream_response demo_clock ''how are you'' True ''https://claude.ai/chat''
          (Some demo_history) demo_bridge = ([''fine''], Inr b'')"
    by (simp add: stream_response_def send_previous_def demo_history_def demo_bridge_def
        demo_page_def driver_eval stream_eval)
  then obtain b'' where sr: "stream_response demo_clock ''how are you'' True ''https://claude.ai/chat''
          (Some demo_history) demo_bridge = ([''fine''], Inr b'')" ..
  have acts: \<open>actions demo_page @ replay_actions demo_page (butlast demo_history) @
        submit_actions demo_page ''how are you'' =
      [WaitForSelector ''textarea[placeholder="Message Claude..."]'',
       Fill ''textarea[placeholder="Message Claude..."]'' ''hi'',
       Press ''Enter'',
       WaitForSelector ''.claude-response'',
       WaitForSelector ''.response-complete-indicator'',
       WaitForSelector ''textarea[placeholder="Message Claude..."]'',
       Fill ''textarea[placeholder="Message Claude..."]'' ''how are you'',
       Press ''Enter'',
       WaitForSelector ''.claude-response'']\<close>
    by (simp add: replay_actions_def submit_actions_def demo_history_def demo_page_def
        input_selector_def response_selector_def complete_indicator_def sublist_code)
  have final: "prev_content (snd (stream_loop stream_init (poll_script demo_page))) = ''fine''"
    by (simp add: demo_page_def stream_eval)
  have bridge: "cache_db demo_bridge = demo_cache"
    by (simp add: demo_bridge_def)
  from replay_user_turns [OF ne gp, of demo_clock "''how are you''" "''https://claude.ai/chat''"
      "''fine''" b' "[''fine'']" b''] sm sr
  show ?thesis
    by (simp add: ne gp acts final bridge)
qed

subsection \<open>Quiescence\<close>

lemma stream_loop_exclusive:
  "(response_complete st \<longrightarrow> complete_wait_count st < max_complete_wait) \<Longrightarrow>
   response_complete (snd (stream_loop st ps)) \<longrightarrow>
     complete_wait_count (snd (stream_loop st ps)) < max_complete_wait"
proof (induction ps arbitrary: st)
  case Nil
  then show ?case by simp
next
  case (Cons p ps)
  obtain c d where p: "p = (c, d)" by (cases p)
  show ?case
  proof (cases "still_polling st")
    case False
    with Cons.prems show ?thesis by (simp add: p)
  next
    case True
    obtain out st1 where r: "read_content c st = (out, st1)" by (cases "read_content c st")
    let ?st2 = "check_complete d st1"
    obtain later st3 where l: "stream_loop ?st2 ps = (later, st3)" by (cases "stream_loop ?st2 ps")
    have "response_complete ?st2 \<longrightarrow> complete_wait_count ?st2 < max_complete_wait"
      using True r
      by (auto simp: still_polling_def check_complete_def read_content_def Let_def
          split: if_splits)
    from Cons.IH [OF this] show ?thesis
      using True by (simp add: p r l)
  qed
qed

lemma quiet_polls:
  "\<not> response_complete st \<Longrightarrow> complete_wait_count st \<le> max_complete_wait \<Longrightarrow>
   stream_loop st (replicate n (prev_content st, False)) =
     ([], st\<lparr>complete_wait_count := min max_complete_wait (complete_wait_count st + n)\<rparr>)"
proof (induction n arbitrary: st)
  case 0
  then show ?case by simp
next
  case (Suc n)
  show ?case
  proof (cases "complete_wait_count st < max_complete_wait")
    case False
    with Suc.prems have "complete_wait_count st = max_complete_wait" by simp
    then show ?thesis by (simp add: still_polling_def)
  next
    case True
    let ?st1 = "st\<lparr>complete_wait_count := complete_wait_count st + 1\<rparr>"
    have sp: "still_polling st"
      using True Suc.prems(1) by (simp add: still_polling_def)
    have rc: "read_content (prev_content st) st = ([], st)"
      by (simp add: read_content_def)
    have cc: "check_complete False st = ?st1"
      by (simp add: check_complete_def)
    have "stream_loop ?st1 (replicate n (prev_content ?st1, False)) =
        ([], ?st1\<lparr>complete_wait_count := min max_complete_wait (complete_wait_count ?st1 + n)\<rparr>)"
      using True Suc.prems(1) by (intro Suc.IH) simp_all
    then have ih: "stream_loop ?st1 (replicate n (prev_content st, False)) =
        ([], st\<lparr>complete_wait_count := min max_complete_wait (complete_wait_count st + Suc n)\<rparr>)"
      by simp
    show ?thesis
      by (simp only: replicate_Suc stream_loop.simps sp rc cc ih if_True prod.case append_Nil)
  qed
qed

text \<open>
  C7. When the stable-poll counter has reached its bound, the marker has not been
  seen, the loop reads no further poll, and \<^verbatim>\<open>stream_response\<close> returns normally:
  the chunks yielded are delivered, one warning is logged, and the cache is updated with
  the text assembled so far.
\<close>

theorem quiescence_fallback:
  assumes "send_previous is_new_chat full_messages b = Inr b1"
    and "stream_submit message b1 = Inr (p, b2)"
    and "max_complete_wait \<le> complete_wait_count (snd (stream_loop stream_init (poll_script p)))"
  shows "stream_response clock message is_new_chat chat_url full_messages b =
           (fst (stream_loop stream_init (poll_script p)),
            Inr (b2\<lparr>warnings := warnings b2 @ [timeout_warning],
                   cache_db := update_conversation clock chat_url
                     \<lparr>role = ''user'', content = message\<rparr>
                     (prev_content (snd (stream_loop stream_init (poll_script p))))
                     (cache_db b2)\<rparr>)) \<and>
         \<not> response_complete (snd (stream_loop stream_init (poll_script p))) \<and>
         stream_loop stream_init (poll_script p @ extra) = stream_loop stream_init (poll_script p)"
proof -
  obtain chunks st where run: "stream_loop stream_init (poll_script p) = (chunks, st)"
    by (cases "stream_loop stream_init (poll_script p)")
  have bound: "max_complete_wait \<le> complete_wait_count st"
    using assms(3) by (simp add: run)
  then have stopped: "\<not> still_polling st"
    by (simp add: still_polling_def)
  have "response_complete stream_init \<longrightarrow> complete_wait_count stream_init < max_complete_wait"
    by (simp add: stream_init_def)
  from stream_loop_exclusive [OF this, of "poll_script p"] bound
  have marker: "\<not> response_complete st"
    by (auto simp: run)
  have result: "stream_response clock message is_new_chat chat_url full_messages b =
      (chunks, Inr (stream_finish clock message chat_url st b2))"
    using stopped by (simp add: stream_response_def assms(1,2) run)
  have finish: "stream_finish clock message chat_url st b2 =
      b2\<lparr>warnings := warnings b2 @ [timeout_warning],
         cache_db := update_conversation clock chat_url \<lparr>role = ''user'', content = message\<rparr>
           (prev_content st) (cache_db b2)\<rparr>"
    using bound by (simp add: stream_finish_def Let_def)
  have ignore: "stream_loop stream_init (poll_script p @ extra) = (chunks, st)"
    using stopped by (simp add: stream_loop_append stream_loop_stopped run)
  show ?thesis
    using result finish marker ignore by (simp add: run)
qed

theorem quiescence_fallback_witness:
  "send_previous False None quiet_bridge = Inr quiet_bridge \<and>
   stream_submit ''q'' quiet_bridge =
     Inr (quiet_page\<lparr>actions := submit_actions quiet_page ''q'', wait_script := [],
                     query_script := []\<rparr>,
          quiet_bridge\<lparr>chatgpt_page :=
            Some (quiet_page\<lparr>actions := submit_actions quiet_page ''q'', wait_script := [],
                              query_script := []\<rparr>)\<rparr>) \<and>
   stream_loop stream_init (poll_script quiet_page) =
     ([''Hel''], \<lparr>prev_content = ''Hel'', response_complete = False, complete_wait_count = 50\<rparr>) \<and>
   (case stream_response demo_clock ''q'' False ''https://claude.ai/chat'' None quiet_bridge of
      (chunks, Inl e) \<Rightarrow> False
    | (chunks, Inr b') \<Rightarrow>
        chunks = [''Hel''] \<and> warnings b' = [timeout_warning] \<and>
        cache_db b' =
          update_conversation demo_clock ''https://claude.ai/chat''
            \<lparr>role = ''user'', content = ''q''\<rparr> ''Hel'' demo_cache)"
proof -
  let ?p = "quiet_page\<lparr>actions := submit_actions quiet_page ''q'', wait_script := [],
                     query_script := []\<rparr>"
  let ?b = "quiet_bridge\<lparr>chatgpt_page := Some ?p\<rparr>"
  have prev: "send_previous False None quiet_bridge = Inr quiet_bridge"
    by (simp add: send_previous_def)
  have submit: "stream_submit ''q'' quiet_bridge = Inr (?p, ?b)"
    by (simp add: quiet_bridge_def quiet_page_def submit_actions_def driver_eval)
  have first: "stream_loop stream_init (poll_script quiet_page) =
      (case stream_loop \<lparr>prev_content = ''Hel'', response_complete = False, complete_wait_count = 1\<rparr>
             (replicate 49 (''Hel'', False)) of (later, st) \<Rightarrow> ([''Hel''] @ later, st))"
    by (simp add: quiet_page_def stream_eval)
  have loop: "stream_loop stream_init (poll_script quiet_page) =
      ([''Hel''], \<lparr>prev_content = ''Hel'', response_complete = False, complete_wait_count = 50\<rparr>)"
    using quiet_polls [of "\<lparr>prev_content = ''Hel'', response_complete = False,
        complete_wait_count = 1\<rparr>" 49]
    by (simp add: first max_complete_wait_def)
  have same: "poll_script ?p = poll_script quiet_page"
    by simp
  have bound: "max_complete_wait \<le> complete_wait_count (snd (stream_loop stream_init (poll_script ?p)))"
    by (simp only: same loop) (simp add: max_complete_wait_def)
  from quiescence_fallback [OF prev submit bound, of demo_clock "''https://claude.ai/chat''" "[]"]
  show ?thesis
    by (simp only: same loop prev submit) (simp add: quiet_bridge_def)
qed

end
